theory Spec2Isabelle
  imports Main "HOL-Library.Sublist"
begin

section \<open>Runtime primitives\<close>

subsection \<open>SHA-256 and base64url\<close>

text \<open>
  The token endpoint computes
  \<^verbatim>\<open>crypto.createHash('sha256').update(code_verifier).digest('base64url')\<close>.
  The hash and the encoding belong to the Node runtime, not to the repository; they are
  written out here after FIPS 180-4 and RFC 4648 (section 5, no padding). A 32-bit word is
  the list of its bits, the least significant first, so that a digest can be computed by
  rewriting. A string is the list of the bytes of its UTF-8 encoding.
\<close>

type_synonym word = "bool list"

text \<open>The three bit functions of the standard: parity (also the sum bit of a full adder),
  majority (also its carry) and choice.\<close>

definition x3 :: "bool \<Rightarrow> bool \<Rightarrow> bool \<Rightarrow> bool" where
  "x3 a b c = (a \<noteq> (b \<noteq> c))"

definition maj3 :: "bool \<Rightarrow> bool \<Rightarrow> bool \<Rightarrow> bool" where
  "maj3 a b c = (a \<and> b \<or> a \<and> c \<or> b \<and> c)"

definition ch3 :: "bool \<Rightarrow> bool \<Rightarrow> bool \<Rightarrow> bool" where
  "ch3 e f g = (if e then f else g)"

fun map3 :: "('a \<Rightarrow> 'a \<Rightarrow> 'a \<Rightarrow> 'a) \<Rightarrow> 'a list \<Rightarrow> 'a list \<Rightarrow> 'a list \<Rightarrow> 'a list" where
  "map3 f (a # as) (b # bs) (c # cs) = f a b c # map3 f as bs cs"
| "map3 f _ _ _ = []"

definition rotr :: "nat \<Rightarrow> word \<Rightarrow> word" where
  "rotr n w = drop n w @ take n w"

definition shr :: "nat \<Rightarrow> word \<Rightarrow> word" where
  "shr n w = drop n w @ replicate n False"

definition bsig0 :: "word \<Rightarrow> word" where
  "bsig0 w = map3 x3 (rotr 2 w) (rotr 13 w) (rotr 22 w)"

definition bsig1 :: "word \<Rightarrow> word" where
  "bsig1 w = map3 x3 (rotr 6 w) (rotr 11 w) (rotr 25 w)"

definition ssig0 :: "word \<Rightarrow> word" where
  "ssig0 w = map3 x3 (rotr 7 w) (rotr 18 w) (shr 3 w)"

definition ssig1 :: "word \<Rightarrow> word" where
  "ssig1 w = map3 x3 (rotr 17 w) (rotr 19 w) (shr 10 w)"

definition Ch :: "word \<Rightarrow> word \<Rightarrow> word \<Rightarrow> word" where
  "Ch e f g = map3 ch3 e f g"

definition Maj :: "word \<Rightarrow> word \<Rightarrow> word \<Rightarrow> word" where
  "Maj a b c = map3 maj3 a b c"

text \<open>Addition modulo \<open>2 ^ 32\<close>: the ripple-carry adder, whose carry out of the last bit
  is dropped.\<close>

fun addc :: "bool \<Rightarrow> word \<Rightarrow> word \<Rightarrow> word" where
  "addc c (a # as) (b # bs) = x3 a b c # addc (maj3 a b c) as bs"
| "addc c _ _ = []"

definition add32 :: "word \<Rightarrow> word \<Rightarrow> word" where
  "add32 x y = addc False x y"

definition word_of_nat :: "nat \<Rightarrow> word" where
  "word_of_nat n = map (\<lambda>i. odd (n div 2 ^ i)) [0..<32]"

text \<open>The value of a word, and the first \<open>w\<close> bits of a binary numeral (by which the
  constants below are turned into words when a digest is evaluated).\<close>

definition nat_of_word :: "word \<Rightarrow> nat" where
  "nat_of_word w = foldr (\<lambda>b n. of_bool b + 2 * n) w 0"

fun bits_num :: "nat \<Rightarrow> num \<Rightarrow> bool list" where
  "bits_num 0 n = []"
| "bits_num (Suc w) num.One = True # replicate w False"
| "bits_num (Suc w) (num.Bit0 n) = False # bits_num w n"
| "bits_num (Suc w) (num.Bit1 n) = True # bits_num w n"

text \<open>The round constants and the initial hash value (the first 32 bits of the fractional
  parts of the cube roots of the first 64 primes, and of the square roots of the first
  8).\<close>

definition K256 :: "nat list" where
  "K256 = [1116352408, 1899447441, 3049323471, 3921009573, 961987163, 1508970993, 2453635748,
     2870763221, 3624381080, 310598401, 607225278, 1426881987, 1925078388, 2162078206,
     2614888103, 3248222580, 3835390401, 4022224774, 264347078, 604807628, 770255983,
     1249150122, 1555081692, 1996064986, 2554220882, 2821834349, 2952996808, 3210313671,
     3336571891, 3584528711, 113926993, 338241895, 666307205, 773529912, 1294757372,
     1396182291, 1695183700, 1986661051, 2177026350, 2456956037, 2730485921, 2820302411,
     3259730800, 3345764771, 3516065817, 3600352804, 4094571909, 275423344, 430227734,
     506948616, 659060556, 883997877, 958139571, 1322822218, 1537002063, 1747873779,
     1955562222, 2024104815, 2227730452, 2361852424, 2428436474, 2756734187, 3204031479,
     3329325298]"

definition H256 :: "nat list" where
  "H256 = [1779033703, 3144134277, 1013904242, 2773480762, 1359893119, 2600822924, 528734635,
     1541459225]"

text \<open>The message schedule is a window of 16 words that moves by one word per round.\<close>

definition next_w :: "word list \<Rightarrow> word" where
  "next_w ws = add32 (add32 (add32 (ssig1 (ws ! 14)) (ws ! 9)) (ssig0 (ws ! 1))) (ws ! 0)"

fun round_fin :: "word \<Rightarrow> word \<Rightarrow> word list \<Rightarrow> word list" where
  "round_fin t1 t2 [a, b, c, d, e, f, g, h] = [add32 t1 t2, a, b, c, add32 d t1, e, f, g]"
| "round_fin t1 t2 st = st"

fun round_step :: "word \<Rightarrow> word \<Rightarrow> word list \<Rightarrow> word list" where
  "round_step k w [a, b, c, d, e, f, g, h] =
     round_fin (add32 (add32 (add32 (add32 h (bsig1 e)) (Ch e f g)) k) w)
               (add32 (bsig0 a) (Maj a b c)) [a, b, c, d, e, f, g, h]"
| "round_step k w st = st"

fun rounds :: "nat list \<Rightarrow> word list \<Rightarrow> word list \<Rightarrow> word list" where
  "rounds [] ws st = st"
| "rounds (k # ks) ws st = rounds ks (tl ws @ [next_w ws]) (round_step (word_of_nat k) (hd ws) st)"

definition compress :: "word list \<Rightarrow> word list \<Rightarrow> word list" where
  "compress hs block = map2 add32 hs (rounds K256 block hs)"

text \<open>Bytes to words, big-endian; a \<open>char\<close> is a byte and carries its eight bits.\<close>

definition bits_of_char :: "char \<Rightarrow> bool list" where
  "bits_of_char c = (case c of Char b0 b1 b2 b3 b4 b5 b6 b7 \<Rightarrow> [b0, b1, b2, b3, b4, b5, b6, b7])"

fun be_words :: "string \<Rightarrow> word list" where
  "be_words (a # b # c # d # r) =
     (bits_of_char d @ bits_of_char c @ bits_of_char b @ bits_of_char a) # be_words r"
| "be_words _ = []"

definition len_bytes :: "nat \<Rightarrow> string" where
  "len_bytes n = map (\<lambda>i. char_of (n div 256 ^ i)) [7, 6, 5, 4, 3, 2, 1, 0]"

definition pad :: "string \<Rightarrow> string" where
  "pad m = m @ [CHR 0x80] @ replicate ((119 - length m mod 64) mod 64) (CHR 0x00)
             @ len_bytes (8 * length m)"

fun blocks :: "word list \<Rightarrow> word list \<Rightarrow> word list" where
  "blocks hs (w0 # w1 # w2 # w3 # w4 # w5 # w6 # w7 # w8 # w9 # w10 # w11 # w12 # w13 # w14 # w15 # r) =
     blocks (compress hs [w0, w1, w2, w3, w4, w5, w6, w7, w8, w9, w10, w11, w12, w13, w14, w15]) r"
| "blocks hs _ = hs"

text \<open>The digest as its 256 bits, the most significant bit of the first byte first.\<close>

definition sha256 :: "string \<Rightarrow> bool list" where
  "sha256 m = concat (map rev (blocks (map word_of_nat H256) (be_words (pad m))))"

definition b64url_alphabet :: string where
  "b64url_alphabet = ''ABCDEFGHIJKLMNOPQRSTUVWXYZabcdefghijklmnopqrstuvwxyz0123456789-_''"

definition sextet :: "bool list \<Rightarrow> char" where
  "sextet bs = b64url_alphabet ! foldl (\<lambda>n b. 2 * n + of_bool b) 0 bs"

fun base64url :: "bool list \<Rightarrow> string" where
  "base64url (a # b # c # d # e # f # r) = sextet [a, b, c, d, e, f] # base64url r"
| "base64url [] = []"
| "base64url r = [sextet (take 6 (r @ replicate 6 False))]"

definition S256 :: "string \<Rightarrow> string" where
  "S256 v = base64url (sha256 v)"

subsection \<open>JavaScript values and the WHATWG URL object\<close>

datatype jsval = Undefined | Null | Str string | Num int | Arr "jsval list"

type_synonym jobject = "(string \<times> jsval) list"

text \<open>
  \<^verbatim>\<open>new URL(s)\<close> is the runtime's parser; the server reads \<open>protocol\<close> and
  \<open>hostname\<close> and writes \<open>searchParams\<close>. The parser itself is a parameter
  (\<open>new_URL\<close> below, \<open>None\<close> when it throws).
\<close>

record url =
  protocol :: string
  hostname :: string
  searchParams :: "(string \<times> string) list"
  other :: string

text \<open>\<^verbatim>\<open>URLSearchParams.set\<close>: the first pair of that name takes the value and the
  other pairs of that name go; without such a pair the new pair is appended.\<close>

fun searchParams_set :: "string \<Rightarrow> string \<Rightarrow> (string \<times> string) list \<Rightarrow> (string \<times> string) list" where
  "searchParams_set k v [] = [(k, v)]"
| "searchParams_set k v (p # ps) =
     (if fst p = k then (k, v) # filter (\<lambda>q. fst q \<noteq> k) ps else p # searchParams_set k v ps)"

definition set_param :: "string \<Rightarrow> string \<Rightarrow> url \<Rightarrow> url" where
  "set_param k v u = u\<lparr>searchParams := searchParams_set k v (searchParams u)\<rparr>"

text \<open>A request field is absent (\<open>None\<close>) or a string. \<open>truthy\<close> is JavaScript's
  truthiness on such a field, \<open>or_default\<close> a destructuring default (taken only when
  the field is absent), \<open>or_else\<close> the operator \<^verbatim>\<open>||\<close>, \<open>template\<close> the
  coercion of a template literal.\<close>

definition truthy :: "string option \<Rightarrow> string option" where
  "truthy x = (case x of None \<Rightarrow> None | Some s \<Rightarrow> if s = [] then None else Some s)"

definition or_default :: "'a option \<Rightarrow> 'a \<Rightarrow> 'a" where
  "or_default x d = (case x of None \<Rightarrow> d | Some v \<Rightarrow> v)"

definition or_else :: "string option \<Rightarrow> string \<Rightarrow> string" where
  "or_else x d = (case truthy x of None \<Rightarrow> d | Some v \<Rightarrow> v)"

definition template :: "string option \<Rightarrow> string" where
  "template x = (case x of None \<Rightarrow> ''undefined'' | Some s \<Rightarrow> s)"

section \<open>Data model of the OAuth server\<close>

record client_data =
  cl_client_id :: string
  cl_client_secret :: string
  cl_client_name :: string
  cl_redirect_uris :: "string list"
  cl_grant_types :: "string list"
  cl_response_types :: "string list"
  cl_scope :: string
  cl_created_at :: int

record claims =
  mcp_auth_code :: "string option"
  claim_client_id :: "string option"
  mcp_scope :: "string option"

record descope_jwt =
  custom_claims :: "claims option"

record validated =
  vt_valid :: bool
  vt_token :: descope_jwt

text \<open>
  One map, \<open>tokenStore\<close>, holds the authorization codes (under \<^verbatim>\<open>auth_<code>\<close>) and
  the access tokens (under \<^verbatim>\<open>mcp_at_<random>\<close>). Its values are objects of three
  shapes; the fields only some shapes have are optional.
\<close>

record token_data =
  td_client_id :: string
  td_scope :: string
  td_redirect_uri :: "string option"
  td_code_challenge :: "string option"
  td_code_challenge_method :: "string option"
  td_token_type :: "string option"
  td_descope_token :: "string option"
  td_descope_user :: "descope_jwt option"
  td_expires_at :: int
  td_created_at :: int

record server =
  tokenStore :: "string \<rightharpoonup> token_data"
  clientStore :: "string \<rightharpoonup> client_data"

text \<open>The Descope SDK is outside the repository: each call is a parameter, \<open>None\<close>
  when the promise rejects.\<close>

record descope =
  oAuth_start :: "string \<Rightarrow> string \<Rightarrow> string \<Rightarrow> string option"
  oAuth_exchangeToken :: "string \<Rightarrow> string option"
  validateSession :: "string \<Rightarrow> validated option"

record env =
  MCP_SERVER_URL :: string
  new_URL :: "string \<Rightarrow> url option"

datatype response = Json nat jobject | Redirect string | RedirectURL url

definition error_json :: "string \<Rightarrow> string \<Rightarrow> jobject" where
  "error_json e d = [(''error'', Str e), (''error_description'', Str d)]"

definition auth_key :: "string \<Rightarrow> string" where
  "auth_key code = ''auth_'' @ code"

definition access_key :: "string \<Rightarrow> string" where
  "access_key rnd = ''mcp_at_'' @ rnd"

text \<open>Milliseconds, as \<^verbatim>\<open>Date.now()\<close> counts them.\<close>

definition code_ttl :: int where
  "code_ttl = 10 * 60 * 1000"

definition token_ttl :: int where
  "token_ttl = 3600 * 1000"

section \<open>Bearer authentication gate\<close>

record http_request =
  req_method :: string
  req_path :: string
  req_authorization :: "string option"

record req_ctx =
  ctx_user :: "descope_jwt option"
  ctx_tokenData :: token_data
  ctx_clientId :: string

datatype gate = Next "req_ctx option" | Respond response

definition publicPaths :: "string list" where
  "publicPaths = [''/health'', ''/mcp/info'', ''/.well-known/oauth-authorization-server'',
                  ''/oauth/authorize'', ''/oauth/token'', ''/oauth/register'']"

definition bearer_required :: "env \<Rightarrow> jobject" where
  "bearer_required env =
     [(''error'', Str ''invalid_token''),
      (''error_description'', Str ''Bearer token required in Authorization header''),
      (''mcp_version'', Str ''2025-03-26''),
      (''auth_endpoint'', Str (MCP_SERVER_URL env @ ''/oauth/authorize'')),
      (''token_endpoint'', Str (MCP_SERVER_URL env @ ''/oauth/token''))]"

definition evict :: "string \<Rightarrow> server \<Rightarrow> server" where
  "evict k st = st\<lparr>tokenStore := (tokenStore st)(k := None)\<rparr>"

definition authenticateBearer :: "env \<Rightarrow> descope \<Rightarrow> server \<Rightarrow> http_request \<Rightarrow> int \<Rightarrow> gate \<times> server" where
  "authenticateBearer env sdk st req now =
     (if req_method req = ''OPTIONS'' \<or> list_ex (\<lambda>path. prefix path (req_path req)) publicPaths
      then (Next None, st)
      else
        (case truthy (req_authorization req) of
           None \<Rightarrow> (Respond (Json 401 (bearer_required env)), st)
         | Some authHeader \<Rightarrow>
             if \<not> prefix ''Bearer '' authHeader
             then (Respond (Json 401 (bearer_required env)), st)
             else
               (let token = drop 7 authHeader in
                case tokenStore st token of
                  None \<Rightarrow>
                    (Respond (Json 401 (error_json ''invalid_token'' ''Token not found or invalid'')), st)
                | Some tokenData \<Rightarrow>
                    if td_expires_at tokenData < now
                    then (Respond (Json 401 (error_json ''invalid_token'' ''Token has expired'')),
                          evict token st)
                    else
                      (case truthy (td_descope_token tokenData) of
                         None \<Rightarrow>
                           (Next (Some \<lparr>ctx_user = None, ctx_tokenData = tokenData,
                                        ctx_clientId = td_client_id tokenData\<rparr>), st)
                       | Some descope_token \<Rightarrow>
                           (case validateSession sdk descope_token of
                              None \<Rightarrow>
                                (Respond (Json 401 (error_json ''invalid_token'' ''Token validation failed'')), st)
                            | Some validatedToken \<Rightarrow>
                                if \<not> vt_valid validatedToken
                                then (Respond (Json 401 (error_json ''invalid_token''
                                                 ''Descope session validation failed'')),
                                      evict token st)
                                else
                                  (Next (Some \<lparr>ctx_user = Some (vt_token validatedToken),
                                               ctx_tokenData = tokenData,
                                               ctx_clientId = td_client_id tokenData\<rparr>), st))))))"

section \<open>Dynamic client registration\<close>

record register_request =
  rr_client_name :: "string option"
  rr_redirect_uris :: "string list option"
  rr_grant_types :: "string list option"
  rr_response_types :: "string list option"
  rr_scope :: "string option"

definition valid_redirect_uri :: "env \<Rightarrow> string \<Rightarrow> bool" where
  "valid_redirect_uri env uri =
     (case new_URL env uri of
        None \<Rightarrow> False
      | Some u \<Rightarrow> protocol u = ''https:'' \<or> (protocol u = ''http:'' \<and> hostname u = ''localhost''))"

definition oauth_register ::
  "env \<Rightarrow> server \<Rightarrow> register_request \<Rightarrow> string \<Rightarrow> string \<Rightarrow> int \<Rightarrow> response \<times> server" where
  "oauth_register env st rq rnd_id rnd_secret now =
     (let redirect_uris = or_default (rr_redirect_uris rq) [MCP_SERVER_URL env @ ''/oauth/callback''];
          grant_types = or_default (rr_grant_types rq) [''authorization_code''];
          response_types = or_default (rr_response_types rq) [''code''];
          scope = or_default (rr_scope rq) ''mcp:tools mcp:resources store:read'';
          clientId = ''mcp_'' @ rnd_id;
          clientSecret = ''mcp_sk_'' @ rnd_secret;
          validRedirectUris = filter (valid_redirect_uri env) redirect_uris
      in
        if length validRedirectUris = 0
        then (Json 400 (error_json ''invalid_redirect_uri''
                          ''Redirect URIs must be HTTPS or localhost HTTP''), st)
        else
          (let clientData = \<lparr>cl_client_id = clientId, cl_client_secret = clientSecret,
                              cl_client_name = or_else (rr_client_name rq) ''MCP Client'',
                              cl_redirect_uris = validRedirectUris, cl_grant_types = grant_types,
                              cl_response_types = response_types, cl_scope = scope,
                              cl_created_at = now\<rparr>
           in (Json 200 [(''client_id'', Str clientId), (''client_secret'', Str clientSecret),
                         (''client_name'', Str (cl_client_name clientData)),
                         (''redirect_uris'', Arr (map Str validRedirectUris)),
                         (''grant_types'', Arr (map Str grant_types)),
                         (''response_types'', Arr (map Str response_types)),
                         (''scope'', Str scope)],
               st\<lparr>clientStore := (clientStore st)(clientId \<mapsto> clientData)\<rparr>)))"

section \<open>Authorization endpoint\<close>

record authorize_request =
  aq_client_id :: "string option"
  aq_redirect_uri :: "string option"
  aq_response_type :: "string option"
  aq_scope :: "string option"
  aq_state :: "string option"
  aq_code_challenge :: "string option"
  aq_code_challenge_method :: "string option"

text \<open>\<open>authCode\<close> is the value \<^verbatim>\<open>generateRandomString(16)\<close> returns in this call;
  \<open>t1\<close> and \<open>t2\<close> are the two readings of \<^verbatim>\<open>Date.now()\<close>, in the order the
  object literal takes them (\<open>expires_at\<close> first).\<close>

definition oauth_authorize ::
  "descope \<Rightarrow> server \<Rightarrow> authorize_request \<Rightarrow> string \<Rightarrow> int \<Rightarrow> int \<Rightarrow> response \<times> server" where
  "oauth_authorize sdk st rq authCode t1 t2 =
     (let scope = or_default (aq_scope rq) ''mcp:tools'';
          code_challenge_method = or_default (aq_code_challenge_method rq) ''S256''
      in
        case (truthy (aq_client_id rq), truthy (aq_redirect_uri rq), truthy (aq_code_challenge rq)) of
          (Some client_id, Some redirect_uri, Some code_challenge) \<Rightarrow>
            if code_challenge_method \<noteq> ''S256''
            then (Json 400 (error_json ''invalid_request'' ''code_challenge_method must be S256''), st)
            else
              (case clientStore st client_id of
                 None \<Rightarrow> (Json 400 (error_json ''invalid_client'' ''Client not found''), st)
               | Some client \<Rightarrow>
                   if redirect_uri \<notin> set (cl_redirect_uris client)
                   then (Json 400 (error_json ''invalid_request'' ''Invalid redirect_uri''), st)
                   else
                     (let st' = st\<lparr>tokenStore := (tokenStore st)(auth_key authCode \<mapsto>
                                   \<lparr>td_client_id = client_id, td_scope = scope,
                                    td_redirect_uri = Some redirect_uri,
                                    td_code_challenge = Some code_challenge,
                                    td_code_challenge_method = Some code_challenge_method,
                                    td_token_type = None, td_descope_token = None,
                                    td_descope_user = None,
                                    td_expires_at = t1 + code_ttl, td_created_at = t2\<rparr>)\<rparr>
                      in case oAuth_start sdk authCode client_id scope of
                           Some descopeAuthUrl \<Rightarrow> (Redirect descopeAuthUrl, st')
                         | None \<Rightarrow>
                             (Json 500 (error_json ''server_error''
                                          ''Failed to start OAuth flow with Descope''), st')))
        | _ \<Rightarrow>
            (Json 400 (error_json ''invalid_request''
                         ''Missing required parameters: client_id, redirect_uri, code_challenge''), st))"

section \<open>OAuth callback\<close>

text \<open>\<open>rnd\<close> is the value of \<^verbatim>\<open>generateRandomString(32)\<close>. The store is written
  before \<^verbatim>\<open>new URL(authData.redirect_uri)\<close> runs, so a throw there is answered 500 with
  the store already changed.\<close>

definition oauth_callback ::
  "env \<Rightarrow> descope \<Rightarrow> server \<Rightarrow> string option \<Rightarrow> string \<Rightarrow> int \<Rightarrow> int \<Rightarrow> response \<times> server" where
  "oauth_callback env sdk st code rnd t1 t2 =
     (case truthy code of
        None \<Rightarrow> (Json 400 (error_json ''invalid_request'' ''Missing authorization code''), st)
      | Some code' \<Rightarrow>
          (case oAuth_exchangeToken sdk code' of
             None \<Rightarrow> (Json 500 (error_json ''server_error''
                                   ''Failed to process OAuth callback with Descope''), st)
           | Some sessionToken \<Rightarrow>
               (case validateSession sdk sessionToken of
                  None \<Rightarrow> (Json 500 (error_json ''server_error''
                                        ''Failed to process OAuth callback with Descope''), st)
                | Some validatedToken \<Rightarrow>
                    if \<not> vt_valid validatedToken
                    then (Json 400 (error_json ''invalid_grant''
                                      ''Invalid session token from Descope''), st)
                    else
                      (let customClaims = or_default (custom_claims (vt_token validatedToken))
                             \<lparr>mcp_auth_code = None, claim_client_id = None, mcp_scope = None\<rparr>
                       in case truthy (mcp_auth_code customClaims) of
                            None \<Rightarrow> (Json 400 (error_json ''invalid_grant''
                                                  ''Missing MCP auth code in token claims''), st)
                          | Some authCode \<Rightarrow>
                              (case tokenStore st (auth_key authCode) of
                                 None \<Rightarrow> (Json 400 (error_json ''invalid_grant''
                                                       ''Invalid or expired authorization code''), st)
                               | Some authData \<Rightarrow>
                                   (let mcpAccessToken = access_key rnd;
                                        st' = evict (auth_key authCode)
                                          (st\<lparr>tokenStore := (tokenStore st)(mcpAccessToken \<mapsto>
                                             \<lparr>td_client_id = td_client_id authData,
                                              td_scope = td_scope authData,
                                              td_redirect_uri = None, td_code_challenge = None,
                                              td_code_challenge_method = None,
                                              td_token_type = Some ''Bearer'',
                                              td_descope_token = Some sessionToken,
                                              td_descope_user = Some (vt_token validatedToken),
                                              td_expires_at = t1 + token_ttl,
                                              td_created_at = t2\<rparr>)\<rparr>)
                                    in case new_URL env (template (td_redirect_uri authData)) of
                                         None \<Rightarrow>
                                           (Json 500 (error_json ''server_error''
                                              ''Failed to process OAuth callback with Descope''), st')
                                       | Some finalRedirectUrl \<Rightarrow>
                                           (RedirectURL (set_param ''state'' ''authorized''
                                              (set_param ''code'' authCode finalRedirectUrl)), st')))))))"

section \<open>Token endpoint\<close>

record token_request =
  tq_grant_type :: "string option"
  tq_code :: "string option"
  tq_redirect_uri :: "string option"
  tq_client_id :: "string option"
  tq_client_secret :: "string option"
  tq_code_verifier :: "string option"

text \<open>The comparison of lines 460 to 465, as a function of the verifier and the stored
  record's \<open>code_challenge\<close>.\<close>

definition pkce_verify :: "string \<Rightarrow> string option \<Rightarrow> bool" where
  "pkce_verify code_verifier code_challenge = (Some (S256 code_verifier) = code_challenge)"

definition server_scope :: string where
  "server_scope = ''mcp:tools mcp:resources store:read''"

text \<open>\<open>rnd_at\<close> and \<open>rnd_rt\<close> are the values of the two calls of
  \<^verbatim>\<open>generateRandomString(32)\<close> (the second only in the authorization-code branch).\<close>

definition oauth_token ::
  "server \<Rightarrow> token_request \<Rightarrow> string \<Rightarrow> string \<Rightarrow> int \<Rightarrow> int \<Rightarrow> response \<times> server" where
  "oauth_token st rq rnd_at rnd_rt t1 t2 =
     (if tq_grant_type rq = Some ''authorization_code'' then
        (case tokenStore st (auth_key (template (tq_code rq))) of
           None \<Rightarrow> (Json 400 (error_json ''invalid_grant''
                                 ''Invalid or expired authorization code''), st)
         | Some authData \<Rightarrow>
             (case truthy (tq_code_verifier rq) of
                None \<Rightarrow> (Json 400 (error_json ''invalid_request''
                                      ''code_verifier required for PKCE''), st)
              | Some code_verifier \<Rightarrow>
                  if \<not> pkce_verify code_verifier (td_code_challenge authData)
                  then (Json 400 (error_json ''invalid_grant'' ''Invalid code_verifier''), st)
                  else
                    (let accessToken = access_key rnd_at;
                         refreshToken = ''mcp_rt_'' @ rnd_rt
                     in (Json 200 [(''access_token'', Str accessToken),
                                   (''token_type'', Str ''Bearer''),
                                   (''expires_in'', Num 3600),
                                   (''refresh_token'', Str refreshToken),
                                   (''scope'', Str (td_scope authData))],
                         evict (auth_key (template (tq_code rq)))
                           (st\<lparr>tokenStore := (tokenStore st)(accessToken \<mapsto>
                              \<lparr>td_client_id = td_client_id authData,
                               td_scope = td_scope authData,
                               td_redirect_uri = None, td_code_challenge = None,
                               td_code_challenge_method = None,
                               td_token_type = Some ''Bearer'',
                               td_descope_token = None, td_descope_user = None,
                               td_expires_at = t1 + token_ttl, td_created_at = t2\<rparr>)\<rparr>)))))
      else if tq_grant_type rq = Some ''client_credentials'' then
        (case Option.bind (tq_client_id rq) (clientStore st) of
           None \<Rightarrow> (Json 401 (error_json ''invalid_client'' ''Invalid client credentials''), st)
         | Some client \<Rightarrow>
             if Some (cl_client_secret client) \<noteq> tq_client_secret rq
             then (Json 401 (error_json ''invalid_client'' ''Invalid client credentials''), st)
             else
               (let accessToken = access_key rnd_at
                in (Json 200 [(''access_token'', Str accessToken),
                              (''token_type'', Str ''Bearer''),
                              (''expires_in'', Num 3600),
                              (''scope'', Str server_scope)],
                    st\<lparr>tokenStore := (tokenStore st)(accessToken \<mapsto>
                       \<lparr>td_client_id = template (tq_client_id rq),
                        td_scope = server_scope,
                        td_redirect_uri = None, td_code_challenge = None,
                        td_code_challenge_method = None,
                        td_token_type = Some ''Bearer'',
                        td_descope_token = None, td_descope_user = None,
                        td_expires_at = t1 + token_ttl, td_created_at = t2\<rparr>)\<rparr>)))
      else (Json 400 (error_json ''unsupported_grant_type''
                        ''Only authorization_code and client_credentials are supported''), st))"

section \<open>The server as a transition system\<close>

text \<open>Every request that can write \<open>tokenStore\<close> or \<open>clientStore\<close>, with the random
  strings, clock readings and SDK answers it meets.\<close>

datatype event =
    Register register_request string string int
  | Authorize descope authorize_request string int int
  | Callback descope "string option" string int int
  | Token token_request string string int int
  | Protected descope http_request int

fun step :: "env \<Rightarrow> event \<Rightarrow> server \<Rightarrow> server" where
  "step env (Register rq rnd_id rnd_secret now) st = snd (oauth_register env st rq rnd_id rnd_secret now)"
| "step env (Authorize sdk rq authCode t1 t2) st = snd (oauth_authorize sdk st rq authCode t1 t2)"
| "step env (Callback sdk code rnd t1 t2) st = snd (oauth_callback env sdk st code rnd t1 t2)"
| "step env (Token rq rnd_at rnd_rt t1 t2) st = snd (oauth_token st rq rnd_at rnd_rt t1 t2)"
| "step env (Protected sdk req now) st = snd (authenticateBearer env sdk st req now)"

definition run :: "env \<Rightarrow> event list \<Rightarrow> server \<Rightarrow> server" where
  "run env evs st = fold (step env) evs st"

text \<open>The authorization code an event stores, if it is an authorization request.\<close>

fun minted :: "event \<Rightarrow> string option" where
  "minted (Authorize sdk rq authCode t1 t2) = Some authCode"
| "minted _ = None"

section \<open>Tool: compare\_products\<close>

record variant =
  price :: jsval

text \<open>A product of the catalog API. \<open>description\<close> is \<open>None\<close> when it is not a
  string and \<open>variants\<close> is \<open>None\<close> when it is \<^verbatim>\<open>undefined\<close> or \<^verbatim>\<open>null\<close>: reading
  \<^verbatim>\<open>p.variants[0]\<close> or calling \<^verbatim>\<open>p.description.split\<close> then throws.\<close>

record product =
  p_id :: jsval
  p_title :: jsval
  p_description :: "string option"
  p_variants :: "variant list option"
  p_image_url :: jsval

record comparison_entry =
  ce_id :: jsval
  ce_title :: jsval
  ce_price :: jsval
  ce_description :: string
  ce_image :: jsval
  ce_features :: "string list"

record compare_result =
  comparison :: "comparison_entry list"
  recommendation :: jsval

datatype js_error = TypeError | AxiosError

definition js_truthy :: "jsval \<Rightarrow> bool" where
  "js_truthy v = (case v of Undefined \<Rightarrow> False | Null \<Rightarrow> False | Str s \<Rightarrow> s \<noteq> []
                  | Num n \<Rightarrow> n \<noteq> 0 | Arr xs \<Rightarrow> True)"

text \<open>\<^verbatim>\<open>s.split('.')\<close>\<close>

fun split_dot :: "string \<Rightarrow> string list" where
  "split_dot [] = [[]]"
| "split_dot (c # cs) =
     (if c = CHR ''.'' then [] # split_dot cs
      else (case split_dot cs of [] \<Rightarrow> [[c]] | w # ws \<Rightarrow> (c # w) # ws))"

text \<open>\<^verbatim>\<open>p.variants[0]?.price || 'N/A'\<close>\<close>

definition first_price :: "variant list \<Rightarrow> jsval" where
  "first_price vs =
     (let pr = (case vs of [] \<Rightarrow> Undefined | v # _ \<Rightarrow> price v)
      in if js_truthy pr then pr else Str ''N/A'')"

definition compare_entry :: "product \<Rightarrow> js_error + comparison_entry" where
  "compare_entry p =
     (case p_variants p of
        None \<Rightarrow> Inl TypeError
      | Some vs \<Rightarrow>
          (case p_description p of
             None \<Rightarrow> Inl TypeError
           | Some d \<Rightarrow>
               Inr \<lparr>ce_id = p_id p, ce_title = p_title p, ce_price = first_price vs,
                    ce_description = d, ce_image = p_image_url p,
                    ce_features = take 3 (split_dot d)\<rparr>))"

text \<open>\<^verbatim>\<open>products.map(...)\<close> with a callback that may throw: the first throw ends it.\<close>

fun map_entries :: "product list \<Rightarrow> js_error + comparison_entry list" where
  "map_entries [] = Inr []"
| "map_entries (p # ps) =
     (case compare_entry p of
        Inl e \<Rightarrow> Inl e
      | Inr c \<Rightarrow> (case map_entries ps of Inl e \<Rightarrow> Inl e | Inr cs \<Rightarrow> Inr (c # cs)))"

text \<open>\<^verbatim>\<open>productIds.includes(v)\<close> compares with SameValueZero: strings, numbers, \<^verbatim>\<open>null\<close>
  and \<^verbatim>\<open>undefined\<close> by value, an array by identity. The requested ids are parsed from
  the request body and the products from the catalog's response, so an array among the
  former is never the same object as an array among the latter.\<close>

definition same_value_zero :: "jsval \<Rightarrow> jsval \<Rightarrow> bool" where
  "same_value_zero x y = (case x of Arr _ \<Rightarrow> False | _ \<Rightarrow> x = y)"

definition array_includes :: "jsval list \<Rightarrow> jsval \<Rightarrow> bool" where
  "array_includes xs v = list_ex (\<lambda>x. same_value_zero x v) xs"

text \<open>\<open>data\<close> is what \<^verbatim>\<open>axios.get\<close> resolves to, \<open>None\<close> when it rejects.\<close>

definition compareProducts :: "product list option \<Rightarrow> jsval list \<Rightarrow> js_error + compare_result" where
  "compareProducts data productIds =
     (case data of
        None \<Rightarrow> Inl AxiosError
      | Some catalog \<Rightarrow>
          (let products = filter (\<lambda>p. array_includes productIds (p_id p)) catalog
           in case map_entries products of
                Inl e \<Rightarrow> Inl e
              | Inr entries \<Rightarrow>
                  Inr \<lparr>comparison = entries,
                       recommendation = (if length products > 0 then p_title (hd products) else Null)\<rparr>))"

section \<open>A concrete deployment\<close>

text \<open>One registered client, one identity-provider session and the URLs of the scenario
  of the specification (redirect URI \<^verbatim>\<open>http://localhost:4000/cb\<close>, verifier
  \<^verbatim>\<open>abc123\<close>); the theorems are instantiated on it.\<close>

definition demo_URL :: "string \<Rightarrow> url option" where
  "demo_URL s =
     (if s = ''http://localhost:4000/cb''
      then Some \<lparr>protocol = ''http:'', hostname = ''localhost'', searchParams = [], other = '':4000/cb''\<rparr>
      else if s = ''https://app.example/cb''
      then Some \<lparr>protocol = ''https:'', hostname = ''app.example'', searchParams = [], other = ''/cb''\<rparr>
      else if s = ''http://app.example/cb''
      then Some \<lparr>protocol = ''http:'', hostname = ''app.example'', searchParams = [], other = ''/cb''\<rparr>
      else None)"

definition demo_env :: env where
  "demo_env = \<lparr>MCP_SERVER_URL = ''http://localhost:3001'', new_URL = demo_URL\<rparr>"

definition demo_client :: client_data where
  "demo_client =
     \<lparr>cl_client_id = ''mcp_c1'', cl_client_secret = ''mcp_sk_s1'', cl_client_name = ''MCP Client'',
      cl_redirect_uris = [''http://localhost:4000/cb''], cl_grant_types = [''authorization_code''],
      cl_response_types = [''code''], cl_scope = ''mcp:tools mcp:resources store:read'',
      cl_created_at = 0\<rparr>"

definition demo_server :: server where
  "demo_server = \<lparr>tokenStore = Map.empty, clientStore = [''mcp_c1'' \<mapsto> demo_client]\<rparr>"

definition demo_jwt :: descope_jwt where
  "demo_jwt = \<lparr>custom_claims = Some \<lparr>mcp_auth_code = Some ''c0de'',
                 claim_client_id = Some ''mcp_c1'', mcp_scope = Some ''mcp:tools''\<rparr>\<rparr>"

definition demo_sdk :: descope where
  "demo_sdk =
     \<lparr>oAuth_start = (\<lambda>authCode client_id scope. Some ''https://api.descope.com/oauth2/v1/authorize''),
      oAuth_exchangeToken = (\<lambda>code. if code = ''idp-code'' then Some ''session-jwt'' else None),
      validateSession = (\<lambda>s. if s = ''session-jwt''
                              then Some \<lparr>vt_valid = True, vt_token = demo_jwt\<rparr> else None)\<rparr>"

definition demo_challenge :: string where
  "demo_challenge = ''bKE9UspwyIPg8LsQHkJaiehiTeUdstI5JZOvaoQRgJA''"

definition demo_authorize :: authorize_request where
  "demo_authorize =
     \<lparr>aq_client_id = Some ''mcp_c1'', aq_redirect_uri = Some ''http://localhost:4000/cb'',
      aq_response_type = Some ''code'', aq_scope = None, aq_state = None,
      aq_code_challenge = Some demo_challenge, aq_code_challenge_method = Some ''S256''\<rparr>"

definition demo_exchange :: "string option \<Rightarrow> token_request" where
  "demo_exchange verifier =
     \<lparr>tq_grant_type = Some ''authorization_code'', tq_code = Some ''c0de'',
      tq_redirect_uri = Some ''http://localhost:4000/cb'', tq_client_id = Some ''mcp_c1'',
      tq_client_secret = None, tq_code_verifier = verifier\<rparr>"

definition demo_credentials :: "string \<Rightarrow> string \<Rightarrow> token_request" where
  "demo_credentials cid secret =
     \<lparr>tq_grant_type = Some ''client_credentials'', tq_code = None, tq_redirect_uri = None,
      tq_client_id = Some cid, tq_client_secret = Some secret, tq_code_verifier = None\<rparr>"

definition demo_request :: "string \<Rightarrow> http_request" where
  "demo_request bearer =
     \<lparr>req_method = ''GET'', req_path = ''/tools'', req_authorization = Some (''Bearer '' @ bearer)\<rparr>"

text \<open>The store right after the authorization request of the scenario, made at time \<open>0\<close>
  with the random code \<^verbatim>\<open>c0de\<close>.\<close>

definition demo_authorized :: server where
  "demo_authorized = snd (oauth_authorize demo_sdk demo_server demo_authorize ''c0de'' 0 0)"

text \<open>The same request with the challenge of the empty verifier.\<close>

definition demo_empty_challenge :: string where
  "demo_empty_challenge = ''47DEQpj8HBSa-_TImW-5JCeuQeRkm5NMpJWZG3hSuFU''"


definition demo_catalog :: "product list" where
  "demo_catalog =
     [\<lparr>p_id = Str ''1'', p_title = Str ''Descope Tee'', p_description = Some ''Soft. Black. Cotton. Unisex.'',
       p_variants = Some [\<lparr>price = Str ''25.00''\<rparr>], p_image_url = Str ''/tee.png''\<rparr>,
      \<lparr>p_id = Str ''2'', p_title = Str ''Descope Mug'', p_description = Some ''Ceramic mug'',
       p_variants = Some [], p_image_url = Str ''/mug.png''\<rparr>,
      \<lparr>p_id = Str ''3'', p_title = Str ''Descope Cap'', p_description = None,
       p_variants = None, p_image_url = Undefined\<rparr>,
      \<lparr>p_id = Arr [Num 4], p_title = Str ''Descope Pin'', p_description = Some ''Enamel pin'',
       p_variants = Some [\<lparr>price = Str ''5.00''\<rparr>], p_image_url = Str ''/pin.png''\<rparr>]"

definition demo_redirect :: url where
  "demo_redirect = \<lparr>protocol = ''http:'', hostname = ''localhost'',
     searchParams = [(''code'', ''c0de''), (''state'', ''authorized'')], other = '':4000/cb''\<rparr>"

text \<open>The store after the code \<^verbatim>\<open>c0de\<close> was exchanged at time \<open>1000\<close>, and the token
  that exchange stored.\<close>

definition demo_exchanged :: server where
  "demo_exchanged =
     snd (oauth_token demo_authorized (demo_exchange (Some ''abc123'')) ''r1'' ''r2'' 1000 1000)"

definition demo_token :: token_data where
  "demo_token = \<lparr>td_client_id = ''mcp_c1'', td_scope = ''mcp:tools'',
                  td_redirect_uri = None, td_code_challenge = None,
                  td_code_challenge_method = None, td_token_type = Some ''Bearer'',
                  td_descope_token = None, td_descope_user = None,
                  td_expires_at = 3601000, td_created_at = 1000\<rparr>"

definition demo_register :: "string list \<Rightarrow> register_request" where
  "demo_register uris = \<lparr>rr_client_name = None, rr_redirect_uris = Some uris, rr_grant_types = None,
                          rr_response_types = None, rr_scope = None\<rparr>"

section \<open>Basic facts\<close>

lemma auth_key_not_access_key: "auth_key c \<noteq> access_key r"
  by (simp add: auth_key_def access_key_def)

lemma access_key_not_auth_key: "access_key r \<noteq> auth_key c"
  by (simp add: auth_key_def access_key_def)

lemma auth_key_inj: "auth_key c = auth_key c' \<longleftrightarrow> c = c'"
  by (simp add: auth_key_def)

lemma access_key_nonempty: "access_key r \<noteq> []"
  by (simp add: access_key_def)

lemma truthy_Some: "truthy x = Some s \<longleftrightarrow> x = Some s \<and> s \<noteq> []"
  by (auto simp: truthy_def split: option.splits)

lemma truthy_None: "truthy x = None \<longleftrightarrow> x = None \<or> x = Some []"
  by (auto simp: truthy_def split: option.splits)

subsection \<open>Words and numbers\<close>

text \<open>The adder on bit lists is addition modulo \<open>2 ^ 32\<close>, and the word of a number
  holds the number modulo \<open>2 ^ 32\<close>.\<close>

lemma nat_of_word_Cons: "nat_of_word (b # w) = of_bool b + 2 * nat_of_word w"
  by (simp add: nat_of_word_def)

lemma nat_of_word_Nil: "nat_of_word [] = 0"
  by (simp add: nat_of_word_def)

lemma full_adder:
  "of_bool a + of_bool b + of_bool c = (of_bool (x3 a b c) + 2 * of_bool (maj3 a b c) :: nat)"
  by (cases a; cases b; cases c) (simp_all add: x3_def maj3_def)

lemma bit_mod: "(of_bool b + 2 * k) mod (2 * p) = (of_bool b + 2 * (k mod p) :: nat)"
proof -
  have "(of_bool b + 2 * k) mod (2 * p) =
          2 * ((of_bool b + 2 * k) div 2 mod p) + (of_bool b + 2 * k) mod 2"
    by (rule mod_mult2_eq)
  moreover have "(of_bool b + 2 * k) div 2 = k" "(of_bool b + 2 * k) mod 2 = of_bool b"
    by (cases b; simp)+
  ultimately show ?thesis by simp
qed

lemma nat_of_word_addc:
  "length x = length y \<Longrightarrow>
     nat_of_word (addc c x y) = (nat_of_word x + nat_of_word y + of_bool c) mod 2 ^ length x"
proof (induction x y arbitrary: c rule: list_induct2)
  case Nil
  then show ?case by (simp add: nat_of_word_Nil)
next
  case (Cons a as b bs)
  let ?A = "nat_of_word as" and ?B = "nat_of_word bs"
  have "nat_of_word (addc c (a # as) (b # bs)) =
          of_bool (x3 a b c) + 2 * ((?A + ?B + of_bool (maj3 a b c)) mod 2 ^ length as)"
    by (simp only: addc.simps nat_of_word_Cons Cons.IH)
  also have "\<dots> = (of_bool (x3 a b c) + 2 * (?A + ?B + of_bool (maj3 a b c))) mod (2 * 2 ^ length as)"
    by (rule bit_mod [symmetric])
  also have "of_bool (x3 a b c) + 2 * (?A + ?B + of_bool (maj3 a b c)) =
               nat_of_word (a # as) + nat_of_word (b # bs) + of_bool c"
    using full_adder [of a b c] by (simp only: nat_of_word_Cons distrib_left add.assoc add.left_commute)
  finally show ?case by simp
qed

lemma nat_of_word_add32:
  "length x = 32 \<Longrightarrow> length y = 32 \<Longrightarrow>
     nat_of_word (add32 x y) = (nat_of_word x + nat_of_word y) mod 2 ^ 32"
  by (simp add: add32_def nat_of_word_addc)

subsection \<open>Evaluating the digest\<close>

text \<open>The digest of a concrete string is computed by rewriting with the equations below:
  truth tables for the bit operations, the functions on words unfolded on a list of 32
  bits, and the round constants turned into bits along their binary numerals.\<close>

lemma bits_shift:
  "map (\<lambda>i. odd ((n::nat) div 2 ^ i)) [0..<Suc w] =
     odd n # map (\<lambda>i. odd (n div 2 div 2 ^ i)) [0..<w]"
proof -
  have "[0..<Suc w] = 0 # map Suc [0..<w]"
    by (simp add: upt_conv_Cons map_Suc_upt del: upt_Suc)
  then show ?thesis
    by (simp add: comp_def div_mult2_eq del: upt_Suc)
qed

lemma nat_of_bits: "nat_of_word (map (\<lambda>i. odd (n div 2 ^ i)) [0..<w]) = n mod 2 ^ w"
proof (induction w arbitrary: n)
  case 0
  then show ?case by (simp add: nat_of_word_Nil)
next
  case (Suc w)
  have "nat_of_word (map (\<lambda>i. odd (n div 2 ^ i)) [0..<Suc w]) =
          of_bool (odd n) + 2 * (n div 2 mod 2 ^ w)"
    unfolding bits_shift by (simp only: nat_of_word_Cons Suc.IH)
  also have "\<dots> = (of_bool (odd n) + 2 * (n div 2)) mod (2 * 2 ^ w)"
    by (rule bit_mod [symmetric])
  also have "of_bool (odd n) + 2 * (n div 2) = n"
    by (cases "odd n") auto
  finally show ?case by simp
qed

lemma nat_of_word_of_nat: "nat_of_word (word_of_nat n) = n mod 2 ^ 32"
  unfolding word_of_nat_def by (rule nat_of_bits)

lemma bits_numeral: "map (\<lambda>i. odd ((numeral n :: nat) div 2 ^ i)) [0..<w] = bits_num w n"
proof (induction w n rule: bits_num.induct)
  case (1 n)
  then show ?case by simp
next
  case (2 w)
  show ?case unfolding bits_shift by (simp add: map_replicate_const del: upt_Suc)
next
  case (3 w n)
  show ?case unfolding bits_shift using 3 by (simp del: upt_Suc)
next
  case (4 w n)
  show ?case unfolding bits_shift using 4 by (simp del: upt_Suc)
qed

lemma word_of_numeral: "word_of_nat (numeral n) = bits_num 32 n"
  by (simp add: word_of_nat_def bits_numeral del: upt_Suc)

lemma bits_num_numeral:
  "bits_num (numeral w) num.One = True # replicate (pred_numeral w) False"
  "bits_num (numeral w) (num.Bit0 n) = False # bits_num (pred_numeral w) n"
  "bits_num (numeral w) (num.Bit1 n) = True # bits_num (pred_numeral w) n"
  by (simp_all add: numeral_eq_Suc)

lemma replicate_numeral: "replicate (numeral k) x = x # replicate (pred_numeral k) x"
  by (simp add: numeral_eq_Suc)

lemma x3_table:
  "x3 False False False = False"
  "x3 False False True = True"
  "x3 False True False = True"
  "x3 False True True = False"
  "x3 True False False = True"
  "x3 True False True = False"
  "x3 True True False = False"
  "x3 True True True = True"
  by (simp_all add: x3_def)

lemma map3_maj3:
  "map3 maj3 (False # as) (False # bs) (False # cs) = False # map3 maj3 as bs cs"
  "map3 maj3 (False # as) (False # bs) (True # cs) = False # map3 maj3 as bs cs"
  "map3 maj3 (False # as) (True # bs) (False # cs) = False # map3 maj3 as bs cs"
  "map3 maj3 (False # as) (True # bs) (True # cs) = True # map3 maj3 as bs cs"
  "map3 maj3 (True # as) (False # bs) (False # cs) = False # map3 maj3 as bs cs"
  "map3 maj3 (True # as) (False # bs) (True # cs) = True # map3 maj3 as bs cs"
  "map3 maj3 (True # as) (True # bs) (False # cs) = True # map3 maj3 as bs cs"
  "map3 maj3 (True # as) (True # bs) (True # cs) = True # map3 maj3 as bs cs"
  by (simp_all add: maj3_def)

lemma map3_ch3:
  "map3 ch3 (False # as) (False # bs) (False # cs) = False # map3 ch3 as bs cs"
  "map3 ch3 (False # as) (False # bs) (True # cs) = True # map3 ch3 as bs cs"
  "map3 ch3 (False # as) (True # bs) (False # cs) = False # map3 ch3 as bs cs"
  "map3 ch3 (False # as) (True # bs) (True # cs) = True # map3 ch3 as bs cs"
  "map3 ch3 (True # as) (False # bs) (False # cs) = False # map3 ch3 as bs cs"
  "map3 ch3 (True # as) (False # bs) (True # cs) = False # map3 ch3 as bs cs"
  "map3 ch3 (True # as) (True # bs) (False # cs) = True # map3 ch3 as bs cs"
  "map3 ch3 (True # as) (True # bs) (True # cs) = True # map3 ch3 as bs cs"
  by (simp_all add: ch3_def)

lemma addc_bits:
  "addc False (False # as) (False # bs) = False # addc False as bs"
  "addc False (False # as) (True # bs) = True # addc False as bs"
  "addc False (True # as) (False # bs) = True # addc False as bs"
  "addc False (True # as) (True # bs) = False # addc True as bs"
  "addc True (False # as) (False # bs) = True # addc False as bs"
  "addc True (False # as) (True # bs) = False # addc True as bs"
  "addc True (True # as) (False # bs) = False # addc True as bs"
  "addc True (True # as) (True # bs) = True # addc True as bs"
  by (simp_all add: x3_def maj3_def)

lemma bsig0_bits:
  "bsig0
     [b0, b1, b2, b3, b4, b5, b6, b7, b8, b9, b10, b11, b12, b13, b14, b15, b16, b17, b18, b19,
      b20, b21, b22, b23, b24, b25, b26, b27, b28, b29, b30, b31] =
     [x3 b2 b13 b22, x3 b3 b14 b23, x3 b4 b15 b24, x3 b5 b16 b25, x3 b6 b17 b26, x3 b7 b18 b27,
      x3 b8 b19 b28, x3 b9 b20 b29, x3 b10 b21 b30, x3 b11 b22 b31, x3 b12 b23 b0,
      x3 b13 b24 b1, x3 b14 b25 b2, x3 b15 b26 b3, x3 b16 b27 b4, x3 b17 b28 b5, x3 b18 b29 b6,
      x3 b19 b30 b7, x3 b20 b31 b8, x3 b21 b0 b9, x3 b22 b1 b10, x3 b23 b2 b11, x3 b24 b3 b12,
      x3 b25 b4 b13, x3 b26 b5 b14, x3 b27 b6 b15, x3 b28 b7 b16, x3 b29 b8 b17, x3 b30 b9 b18,
      x3 b31 b10 b19, x3 b0 b11 b20, x3 b1 b12 b21]"
  by (simp add: bsig0_def rotr_def shr_def numeral_eq_Suc)

lemma bsig1_bits:
  "bsig1
     [b0, b1, b2, b3, b4, b5, b6, b7, b8, b9, b10, b11, b12, b13, b14, b15, b16, b17, b18, b19,
      b20, b21, b22, b23, b24, b25, b26, b27, b28, b29, b30, b31] =
     [x3 b6 b11 b25, x3 b7 b12 b26, x3 b8 b13 b27, x3 b9 b14 b28, x3 b10 b15 b29,
      x3 b11 b16 b30, x3 b12 b17 b31, x3 b13 b18 b0, x3 b14 b19 b1, x3 b15 b20 b2,
      x3 b16 b21 b3, x3 b17 b22 b4, x3 b18 b23 b5, x3 b19 b24 b6, x3 b20 b25 b7, x3 b21 b26 b8,
      x3 b22 b27 b9, x3 b23 b28 b10, x3 b24 b29 b11, x3 b25 b30 b12, x3 b26 b31 b13,
      x3 b27 b0 b14, x3 b28 b1 b15, x3 b29 b2 b16, x3 b30 b3 b17, x3 b31 b4 b18, x3 b0 b5 b19,
      x3 b1 b6 b20, x3 b2 b7 b21, x3 b3 b8 b22, x3 b4 b9 b23, x3 b5 b10 b24]"
  by (simp add: bsig1_def rotr_def shr_def numeral_eq_Suc)

lemma ssig0_bits:
  "ssig0
     [b0, b1, b2, b3, b4, b5, b6, b7, b8, b9, b10, b11, b12, b13, b14, b15, b16, b17, b18, b19,
      b20, b21, b22, b23, b24, b25, b26, b27, b28, b29, b30, b31] =
     [x3 b7 b18 b3, x3 b8 b19 b4, x3 b9 b20 b5, x3 b10 b21 b6, x3 b11 b22 b7, x3 b12 b23 b8,
      x3 b13 b24 b9, x3 b14 b25 b10, x3 b15 b26 b11, x3 b16 b27 b12, x3 b17 b28 b13,
      x3 b18 b29 b14, x3 b19 b30 b15, x3 b20 b31 b16, x3 b21 b0 b17, x3 b22 b1 b18,
      x3 b23 b2 b19, x3 b24 b3 b20, x3 b25 b4 b21, x3 b26 b5 b22, x3 b27 b6 b23, x3 b28 b7 b24,
      x3 b29 b8 b25, x3 b30 b9 b26, x3 b31 b10 b27, x3 b0 b11 b28, x3 b1 b12 b29, x3 b2 b13 b30,
      x3 b3 b14 b31, x3 b4 b15 False, x3 b5 b16 False, x3 b6 b17 False]"
  by (simp add: ssig0_def rotr_def shr_def numeral_eq_Suc)

lemma ssig1_bits:
  "ssig1
     [b0, b1, b2, b3, b4, b5, b6, b7, b8, b9, b10, b11, b12, b13, b14, b15, b16, b17, b18, b19,
      b20, b21, b22, b23, b24, b25, b26, b27, b28, b29, b30, b31] =
     [x3 b17 b19 b10, x3 b18 b20 b11, x3 b19 b21 b12, x3 b20 b22 b13, x3 b21 b23 b14,
      x3 b22 b24 b15, x3 b23 b25 b16, x3 b24 b26 b17, x3 b25 b27 b18, x3 b26 b28 b19,
      x3 b27 b29 b20, x3 b28 b30 b21, x3 b29 b31 b22, x3 b30 b0 b23, x3 b31 b1 b24,
      x3 b0 b2 b25, x3 b1 b3 b26, x3 b2 b4 b27, x3 b3 b5 b28, x3 b4 b6 b29, x3 b5 b7 b30,
      x3 b6 b8 b31, x3 b7 b9 False, x3 b8 b10 False, x3 b9 b11 False, x3 b10 b12 False,
      x3 b11 b13 False, x3 b12 b14 False, x3 b13 b15 False, x3 b14 b16 False, x3 b15 b17 False,
      x3 b16 b18 False]"
  by (simp add: ssig1_def rotr_def shr_def numeral_eq_Suc)

lemma rev_bits:
  "rev
     [b0, b1, b2, b3, b4, b5, b6, b7, b8, b9, b10, b11, b12, b13, b14, b15, b16, b17, b18, b19,
      b20, b21, b22, b23, b24, b25, b26, b27, b28, b29, b30, b31] =
     [b31, b30, b29, b28, b27, b26, b25, b24, b23, b22, b21, b20, b19, b18, b17, b16, b15, b14,
      b13, b12, b11, b10, b9, b8, b7, b6, b5, b4, b3, b2, b1, b0]"
  by simp

lemma next_w_window:
  "next_w [w0, w1, w2, w3, w4, w5, w6, w7, w8, w9, w10, w11, w12, w13, w14, w15] =
     add32 (add32 (add32 (ssig1 w14) w9) (ssig0 w1)) w0"
  by (simp add: next_w_def)

lemma rounds_window:
  "rounds (k # ks) [w0, w1, w2, w3, w4, w5, w6, w7, w8, w9, w10, w11, w12, w13, w14, w15] st =
     rounds ks [w1, w2, w3, w4, w5, w6, w7, w8, w9, w10, w11, w12, w13, w14, w15, next_w [w0, w1, w2, w3, w4, w5, w6, w7, w8, w9, w10, w11, w12, w13, w14, w15]]
       (round_step (word_of_nat k) w0 st)"
  by simp

lemma sextet_table:
  "sextet [False, False, False, False, False, False] = CHR ''A''"
  "sextet [False, False, False, False, False, True] = CHR ''B''"
  "sextet [False, False, False, False, True, False] = CHR ''C''"
  "sextet [False, False, False, False, True, True] = CHR ''D''"
  "sextet [False, False, False, True, False, False] = CHR ''E''"
  "sextet [False, False, False, True, False, True] = CHR ''F''"
  "sextet [False, False, False, True, True, False] = CHR ''G''"
  "sextet [False, False, False, True, True, True] = CHR ''H''"
  "sextet [False, False, True, False, False, False] = CHR ''I''"
  "sextet [False, False, True, False, False, True] = CHR ''J''"
  "sextet [False, False, True, False, True, False] = CHR ''K''"
  "sextet [False, False, True, False, True, True] = CHR ''L''"
  "sextet [False, False, True, True, False, False] = CHR ''M''"
  "sextet [False, False, True, True, False, True] = CHR ''N''"
  "sextet [False, False, True, True, True, False] = CHR ''O''"
  "sextet [False, False, True, True, True, True] = CHR ''P''"
  "sextet [False, True, False, False, False, False] = CHR ''Q''"
  "sextet [False, True, False, False, False, True] = CHR ''R''"
  "sextet [False, True, False, False, True, False] = CHR ''S''"
  "sextet [False, True, False, False, True, True] = CHR ''T''"
  "sextet [False, True, False, True, False, False] = CHR ''U''"
  "sextet [False, True, False, True, False, True] = CHR ''V''"
  "sextet [False, True, False, True, True, False] = CHR ''W''"
  "sextet [False, True, False, True, True, True] = CHR ''X''"
  "sextet [False, True, True, False, False, False] = CHR ''Y''"
  "sextet [False, True, True, False, False, True] = CHR ''Z''"
  "sextet [False, True, True, False, True, False] = CHR ''a''"
  "sextet [False, True, True, False, True, True] = CHR ''b''"
  "sextet [False, True, True, True, False, False] = CHR ''c''"
  "sextet [False, True, True, True, False, True] = CHR ''d''"
  "sextet [False, True, True, True, True, False] = CHR ''e''"
  "sextet [False, True, True, True, True, True] = CHR ''f''"
  "sextet [True, False, False, False, False, False] = CHR ''g''"
  "sextet [True, False, False, False, False, True] = CHR ''h''"
  "sextet [True, False, False, False, True, False] = CHR ''i''"
  "sextet [True, False, False, False, True, True] = CHR ''j''"
  "sextet [True, False, False, True, False, False] = CHR ''k''"
  "sextet [True, False, False, True, False, True] = CHR ''l''"
  "sextet [True, False, False, True, True, False] = CHR ''m''"
  "sextet [True, False, False, True, True, True] = CHR ''n''"
  "sextet [True, False, True, False, False, False] = CHR ''o''"
  "sextet [True, False, True, False, False, True] = CHR ''p''"
  "sextet [True, False, True, False, True, False] = CHR ''q''"
  "sextet [True, False, True, False, True, True] = CHR ''r''"
  "sextet [True, False, True, True, False, False] = CHR ''s''"
  "sextet [True, False, True, True, False, True] = CHR ''t''"
  "sextet [True, False, True, True, True, False] = CHR ''u''"
  "sextet [True, False, True, True, True, True] = CHR ''v''"
  "sextet [True, True, False, False, False, False] = CHR ''w''"
  "sextet [True, True, False, False, False, True] = CHR ''x''"
  "sextet [True, True, False, False, True, False] = CHR ''y''"
  "sextet [True, True, False, False, True, True] = CHR ''z''"
  "sextet [True, True, False, True, False, False] = CHR ''0''"
  "sextet [True, True, False, True, False, True] = CHR ''1''"
  "sextet [True, True, False, True, True, False] = CHR ''2''"
  "sextet [True, True, False, True, True, True] = CHR ''3''"
  "sextet [True, True, True, False, False, False] = CHR ''4''"
  "sextet [True, True, True, False, False, True] = CHR ''5''"
  "sextet [True, True, True, False, True, False] = CHR ''6''"
  "sextet [True, True, True, False, True, True] = CHR ''7''"
  "sextet [True, True, True, True, False, False] = CHR ''8''"
  "sextet [True, True, True, True, False, True] = CHR ''9''"
  "sextet [True, True, True, True, True, False] = CHR ''-''"
  "sextet [True, True, True, True, True, True] = CHR ''_''"
  by (simp_all add: sextet_def b64url_alphabet_def)

lemma base64url_rest: "base64url [a, b, c, d] = [sextet [a, b, c, d, False, False]]"
  by (simp add: numeral_eq_Suc)

text \<open>The one block of a message of up to seven bytes: the bytes, the byte \<open>0x80\<close>,
  zeros, and the length in bits.\<close>

lemma block_of_0:
  "be_words (pad []) =
     [bits_of_char (CHR 0x00) @ bits_of_char (CHR 0x00) @ bits_of_char (CHR 0x00) @ bits_of_char (CHR 0x80),
      replicate 32 False,
      replicate 32 False, replicate 32 False, replicate 32 False, replicate 32 False,
      replicate 32 False, replicate 32 False, replicate 32 False, replicate 32 False,
      replicate 32 False, replicate 32 False, replicate 32 False, replicate 32 False,
      replicate 32 False,
      replicate 32 False]"
  by (simp add: pad_def len_bytes_def bits_of_char_def replicate_numeral char_of_def bit_0)

lemma block_of_5:
  "be_words (pad [c0, c1, c2, c3, c4]) =
     [bits_of_char c3 @ bits_of_char c2 @ bits_of_char c1 @ bits_of_char c0,
      bits_of_char (CHR 0x00) @ bits_of_char (CHR 0x00) @ bits_of_char (CHR 0x80) @ bits_of_char c4,
      replicate 32 False, replicate 32 False, replicate 32 False, replicate 32 False,
      replicate 32 False, replicate 32 False, replicate 32 False, replicate 32 False,
      replicate 32 False, replicate 32 False, replicate 32 False, replicate 32 False,
      replicate 32 False,
      bits_of_char (CHR ''('') @ replicate 24 False]"
  by (simp add: pad_def len_bytes_def bits_of_char_def replicate_numeral char_of_def bit_0)

lemma block_of_6:
  "be_words (pad [c0, c1, c2, c3, c4, c5]) =
     [bits_of_char c3 @ bits_of_char c2 @ bits_of_char c1 @ bits_of_char c0,
      bits_of_char (CHR 0x00) @ bits_of_char (CHR 0x80) @ bits_of_char c5 @ bits_of_char c4,
      replicate 32 False, replicate 32 False, replicate 32 False, replicate 32 False,
      replicate 32 False, replicate 32 False, replicate 32 False, replicate 32 False,
      replicate 32 False, replicate 32 False, replicate 32 False, replicate 32 False,
      replicate 32 False,
      bits_of_char (CHR ''0'') @ replicate 24 False]"
  by (simp add: pad_def len_bytes_def bits_of_char_def replicate_numeral char_of_def bit_0)

lemma block_of_7:
  "be_words (pad [c0, c1, c2, c3, c4, c5, c6]) =
     [bits_of_char c3 @ bits_of_char c2 @ bits_of_char c1 @ bits_of_char c0,
      bits_of_char (CHR 0x80) @ bits_of_char c6 @ bits_of_char c5 @ bits_of_char c4,
      replicate 32 False, replicate 32 False, replicate 32 False, replicate 32 False,
      replicate 32 False, replicate 32 False, replicate 32 False, replicate 32 False,
      replicate 32 False, replicate 32 False, replicate 32 False, replicate 32 False,
      replicate 32 False,
      bits_of_char (CHR ''8'') @ replicate 24 False]"
  by (simp add: pad_def len_bytes_def bits_of_char_def replicate_numeral char_of_def bit_0)

lemmas sha256_eval =
  S256_def sha256_def block_of_0 block_of_5 block_of_6 block_of_7 bits_of_char_def char.case
  append.simps blocks.simps compress_def
  H256_def K256_def list.map word_of_numeral bits_num_numeral bits_num.simps(1)
  pred_numeral_simps BitM.simps replicate_numeral replicate.simps(1)
  rounds_window rounds.simps(1) next_w_window round_step.simps(1) round_fin.simps(1)
  add32_def addc_bits addc.simps(2-) x3_table
  bsig0_bits bsig1_bits ssig0_bits ssig1_bits Ch_def Maj_def map3_maj3 map3_ch3 map3.simps(2-)
  rev_bits concat.simps zip_Cons_Cons zip_Nil prod.case
  base64url.simps(1,2) base64url_rest sextet_table demo_challenge_def demo_empty_challenge_def

text \<open>The challenge of the specification's scenario,
  \<^verbatim>\<open>base64url(sha256("abc123"))\<close>, the digest of one mutated verifier and the digest of
  the empty string.\<close>

lemma S256_abc123: "S256 ''abc123'' = demo_challenge"
  by (simp only: sha256_eval)

lemma S256_abc124: "S256 ''abc124'' = ''zXAR56ayfUTOIqcaTN_CxH1cZ-M1MZ7X9q5yzAPX1j8''"
  by (simp only: sha256_eval)


subsection \<open>The token endpoint on a code that is, or is not, in the store\<close>

lemma token_absent_code:
  assumes "tq_grant_type rq = Some ''authorization_code''"
      and "tokenStore st (auth_key (template (tq_code rq))) = None"
  shows "oauth_token st rq rnd_at rnd_rt t1 t2 =
           (Json 400 (error_json ''invalid_grant'' ''Invalid or expired authorization code''), st)"
  using assms by (simp add: oauth_token_def)

lemma token_error_keeps_store:
  assumes "\<forall>body. fst (oauth_token st rq rnd_at rnd_rt t1 t2) \<noteq> Json 200 body"
  shows "snd (oauth_token st rq rnd_at rnd_rt t1 t2) = st"
  using assms
  by (auto simp: oauth_token_def Let_def split: option.splits if_splits)

lemma first_exchange:
  assumes "tokenStore st (auth_key code) = Some ad"
      and "pkce_verify v (td_code_challenge ad)" and "v \<noteq> []"
      and "tq_grant_type rq = Some ''authorization_code''" and "tq_code rq = Some code"
      and "tq_code_verifier rq = Some v"
  shows "oauth_token st rq rnd_at rnd_rt t1 t2 =
           (Json 200 [(''access_token'', Str (access_key rnd_at)), (''token_type'', Str ''Bearer''),
                      (''expires_in'', Num 3600), (''refresh_token'', Str (''mcp_rt_'' @ rnd_rt)),
                      (''scope'', Str (td_scope ad))],
            evict (auth_key code)
              (st\<lparr>tokenStore := (tokenStore st)(access_key rnd_at \<mapsto>
                 \<lparr>td_client_id = td_client_id ad, td_scope = td_scope ad,
                  td_redirect_uri = None, td_code_challenge = None,
                  td_code_challenge_method = None, td_token_type = Some ''Bearer'',
                  td_descope_token = None, td_descope_user = None,
                  td_expires_at = t1 + token_ttl, td_created_at = t2\<rparr>)\<rparr>))"
  using assms
  by (simp add: oauth_token_def Let_def template_def truthy_def)



subsection \<open>A code that is not in the store stays out of it until it is minted again\<close>

lemma step_absent_code:
  assumes "tokenStore st (auth_key c) = None" and "minted ev \<noteq> Some c"
  shows "tokenStore (step env ev st) (auth_key c) = None"
proof (cases ev)
  case (Register rq rnd_id rnd_secret now)
  then show ?thesis using assms
    by (simp add: oauth_register_def Let_def)
next
  case (Authorize sdk rq authCode t1 t2)
  then show ?thesis using assms
    by (auto simp: oauth_authorize_def Let_def auth_key_inj split: option.splits)
next
  case (Callback sdk code rnd t1 t2)
  then show ?thesis using assms
    by (auto simp: oauth_callback_def Let_def evict_def access_key_not_auth_key auth_key_not_access_key
             split: option.splits)
next
  case (Token rq rnd_at rnd_rt t1 t2)
  then show ?thesis using assms
    by (auto simp: oauth_token_def Let_def evict_def access_key_not_auth_key auth_key_not_access_key
             split: option.splits)
next
  case (Protected sdk req now)
  then show ?thesis using assms
    by (auto simp: authenticateBearer_def Let_def evict_def split: option.splits)
qed

lemma run_absent_code:
  assumes "tokenStore st (auth_key c) = None" and "Some c \<notin> minted ` set evs"
  shows "tokenStore (run env evs st) (auth_key c) = None"
  using assms unfolding run_def
proof (induction evs arbitrary: st)
  case Nil
  then show ?case by simp
next
  case (Cons ev evs)
  have "tokenStore (step env ev st) (auth_key c) = None"
    using Cons.prems by (intro step_absent_code) auto
  then show ?case using Cons by simp
qed

lemma authorize_mints:
  assumes "oauth_authorize sdk st0 aq code t1 t2 = (resp, st)"
      and "\<forall>body. resp \<noteq> Json 400 body"
  shows "\<exists>ad. tokenStore st (auth_key code) = Some ad
            \<and> td_code_challenge ad = aq_code_challenge aq
            \<and> td_scope ad = or_default (aq_scope aq) ''mcp:tools''
            \<and> td_expires_at ad = t1 + code_ttl \<and> td_created_at ad = t2"
  using assms
  by (auto simp: oauth_authorize_def Let_def truthy_Some split: option.splits if_splits)

subsection \<open>The scenario\<close>

lemma demo_authorized_code:
  "tokenStore demo_authorized (auth_key ''c0de'') =
     Some \<lparr>td_client_id = ''mcp_c1'', td_scope = ''mcp:tools'',
           td_redirect_uri = Some ''http://localhost:4000/cb'',
           td_code_challenge = Some demo_challenge, td_code_challenge_method = Some ''S256'',
           td_token_type = None, td_descope_token = None, td_descope_user = None,
           td_expires_at = 600000, td_created_at = 0\<rparr>"
  by (simp add: demo_authorized_def oauth_authorize_def demo_authorize_def demo_server_def
        demo_client_def demo_sdk_def demo_challenge_def truthy_def or_default_def code_ttl_def Let_def)


lemma demo_authorize_response:
  "oauth_authorize demo_sdk demo_server demo_authorize ''c0de'' 0 0 =
     (Redirect ''https://api.descope.com/oauth2/v1/authorize'', demo_authorized)"
  by (simp add: demo_authorized_def oauth_authorize_def demo_authorize_def demo_server_def
        demo_client_def demo_sdk_def demo_challenge_def truthy_def or_default_def code_ttl_def Let_def)

section \<open>Authorization codes are single-use\<close>

text \<open>
  Claim C1. Take an authorization code minted by the authorization endpoint (its answer
  is not a 400) for a challenge \<open>S256 v\<close>. The first \<^verbatim>\<open>authorization_code\<close> exchange
  that presents the code with the verifier \<open>v\<close> is answered 200 with an access token,
  and it deletes the code. From then on, after any sequence of requests to the server in
  which the authorization endpoint does not mint that same code string again, every
  exchange of the code is answered 400 \<^verbatim>\<open>invalid_grant\<close> and leaves the store as it is.
\<close>

theorem auth_code_single_use:
  assumes mint: "oauth_authorize sdk st0 aq code t1 t2 = (resp, st)"
      and ok: "\<forall>body. resp \<noteq> Json 400 body"
      and chal: "aq_code_challenge aq = Some (S256 v)" and v: "v \<noteq> []"
      and rq: "tq_grant_type rq = Some ''authorization_code''" "tq_code rq = Some code"
              "tq_code_verifier rq = Some v"
  shows "\<exists>st1. oauth_token st rq rnd_at rnd_rt t3 t4 =
             (Json 200 [(''access_token'', Str (access_key rnd_at)), (''token_type'', Str ''Bearer''),
                        (''expires_in'', Num 3600), (''refresh_token'', Str (''mcp_rt_'' @ rnd_rt)),
                        (''scope'', Str (or_default (aq_scope aq) ''mcp:tools''))], st1)
           \<and> tokenStore st1 (auth_key code) = None
           \<and> (\<forall>evs rq' ra rr t5 t6.
                 Some code \<notin> minted ` set evs \<and>
                 tq_grant_type rq' = Some ''authorization_code'' \<and> tq_code rq' = Some code \<longrightarrow>
                 oauth_token (run env evs st1) rq' ra rr t5 t6 =
                   (Json 400 (error_json ''invalid_grant'' ''Invalid or expired authorization code''),
                    run env evs st1))"
proof -
  obtain ad where ad: "tokenStore st (auth_key code) = Some ad"
      "td_code_challenge ad = aq_code_challenge aq"
      "td_scope ad = or_default (aq_scope aq) ''mcp:tools''"
    using authorize_mints [OF mint ok] by blast
  have pk: "pkce_verify v (td_code_challenge ad)"
    by (simp add: pkce_verify_def ad chal)
  let ?st1 = "snd (oauth_token st rq rnd_at rnd_rt t3 t4)"
  note fe = first_exchange [OF ad(1) pk v rq, of rnd_at rnd_rt t3 t4]
  have gone: "tokenStore ?st1 (auth_key code) = None"
    by (simp add: fe evict_def)
  have later: "oauth_token (run env evs ?st1) rq' ra rr t5 t6 =
                 (Json 400 (error_json ''invalid_grant'' ''Invalid or expired authorization code''),
                  run env evs ?st1)"
    if "Some code \<notin> minted ` set evs" "tq_grant_type rq' = Some ''authorization_code''"
       "tq_code rq' = Some code" for evs rq' ra rr t5 t6
  proof -
    have "tokenStore (run env evs ?st1) (auth_key code) = None"
      using gone that(1) by (rule run_absent_code)
    then show ?thesis
      using that(2,3) by (intro token_absent_code) (simp_all add: template_def)
  qed
  show ?thesis
    by (rule exI [of _ ?st1]) (use fe gone later ad(3) in auto)
qed

text \<open>On the scenario: the code \<^verbatim>\<open>c0de\<close> is exchanged with \<^verbatim>\<open>abc123\<close>, then once more.\<close>

theorem auth_code_single_use_witness:
  "fst (oauth_token demo_authorized (demo_exchange (Some ''abc123'')) ''r1'' ''r2'' 1000 1000) =
     Json 200 [(''access_token'', Str ''mcp_at_r1''), (''token_type'', Str ''Bearer''),
               (''expires_in'', Num 3600), (''refresh_token'', Str ''mcp_rt_r2''),
               (''scope'', Str ''mcp:tools'')]
   \<and> fst (oauth_token (snd (oauth_token demo_authorized (demo_exchange (Some ''abc123''))
                              ''r1'' ''r2'' 1000 1000))
             (demo_exchange (Some ''abc123'')) ''r3'' ''r4'' 2000 2000) =
     Json 400 (error_json ''invalid_grant'' ''Invalid or expired authorization code'')"
  using auth_code_single_use [OF demo_authorize_response, of "''abc123''"
      "demo_exchange (Some ''abc123'')" "''r1''" "''r2''" 1000 1000 demo_env]
  apply (simp add: S256_abc123 demo_authorize_def demo_exchange_def or_default_def access_key_def)
  apply (erule exE conjE)+
  apply (drule spec [of _ "[]"])
  apply (drule spec [of _ "demo_exchange (Some ''abc123'')"])
  apply (simp add: demo_exchange_def run_def)
  done

section \<open>The PKCE method fails closed\<close>

text \<open>
  Claim C8. An authorization request whose \<^verbatim>\<open>code_challenge_method\<close> is present and
  is not \<^verbatim>\<open>S256\<close> (\<^verbatim>\<open>plain\<close> included) is answered 400 \<^verbatim>\<open>invalid_request\<close> and
  the server state, so the token store, is unchanged: no code is minted. Whenever the
  endpoint does not answer 400, the method was absent or \<^verbatim>\<open>S256\<close>, and the stored code
  records \<^verbatim>\<open>S256\<close>.
\<close>

theorem authorize_method_fails_closed:
  "(\<forall>m. aq_code_challenge_method rq = Some m \<and> m \<noteq> ''S256'' \<longrightarrow>
      (\<exists>d. oauth_authorize sdk st rq authCode t1 t2 =
              (Json 400 (error_json ''invalid_request'' d), st)))
   \<and> ((\<forall>body. fst (oauth_authorize sdk st rq authCode t1 t2) \<noteq> Json 400 body) \<longrightarrow>
        (aq_code_challenge_method rq = None \<or> aq_code_challenge_method rq = Some ''S256'')
      \<and> (\<exists>ad. tokenStore (snd (oauth_authorize sdk st rq authCode t1 t2)) (auth_key authCode) = Some ad
              \<and> td_code_challenge_method ad = Some ''S256''))"
  by (auto simp: oauth_authorize_def or_default_def Let_def split: option.splits)

theorem authorize_method_fails_closed_witness:
  "oauth_authorize demo_sdk demo_server (demo_authorize\<lparr>aq_code_challenge_method := Some ''plain''\<rparr>)
       ''c0de'' 0 0 =
     (Json 400 (error_json ''invalid_request'' ''code_challenge_method must be S256''), demo_server)
   \<and> td_code_challenge_method (the (tokenStore demo_authorized (auth_key ''c0de''))) = Some ''S256''"
  using authorize_method_fails_closed [of "demo_authorize\<lparr>aq_code_challenge_method := Some ''plain''\<rparr>"
      demo_sdk demo_server "''c0de''" 0 0]
  by (simp add: demo_authorized_code oauth_authorize_def demo_authorize_def demo_server_def
        demo_client_def demo_challenge_def truthy_def or_default_def Let_def)

section \<open>Failed exchanges leave the store alone\<close>

text \<open>
  Claim C9. Let the store hold an authorization code whose challenge is \<open>S256 v\<close> for a
  non-empty \<open>v\<close>. An exchange of that code without a verifier (absent or empty) is
  answered 400 \<^verbatim>\<open>invalid_request\<close>, one with a verifier that fails the comparison is
  answered 400 \<^verbatim>\<open>invalid_grant\<close>, and both return the store unchanged. After any
  exchange that is not answered 200 the store is the one before it, the code is still in
  it, and the exchange of the same code with the verifier \<open>v\<close> is then answered 200
  with an access token, which stores the token and deletes the code.
\<close>

theorem token_errors_leave_store:
  assumes stored: "tokenStore st (auth_key code) = Some ad"
      and chal: "td_code_challenge ad = Some (S256 v)" and v: "v \<noteq> []"
      and rq: "tq_grant_type rq = Some ''authorization_code''" "tq_code rq = Some code"
  shows "(truthy (tq_code_verifier rq) = None \<longrightarrow>
            oauth_token st rq ra rr t1 t2 =
              (Json 400 (error_json ''invalid_request'' ''code_verifier required for PKCE''), st))
       \<and> (\<forall>w. truthy (tq_code_verifier rq) = Some w \<and> \<not> pkce_verify w (td_code_challenge ad) \<longrightarrow>
            oauth_token st rq ra rr t1 t2 =
              (Json 400 (error_json ''invalid_grant'' ''Invalid code_verifier''), st))
       \<and> ((\<forall>body. fst (oauth_token st rq ra rr t1 t2) \<noteq> Json 200 body) \<longrightarrow>
            snd (oauth_token st rq ra rr t1 t2) = st
          \<and> tokenStore (snd (oauth_token st rq ra rr t1 t2)) (auth_key code) = Some ad
          \<and> (\<exists>st'. oauth_token (snd (oauth_token st rq ra rr t1 t2))
                       (rq\<lparr>tq_code_verifier := Some v\<rparr>) ra' rr' t3 t4 =
                  (Json 200 [(''access_token'', Str (access_key ra')), (''token_type'', Str ''Bearer''),
                             (''expires_in'', Num 3600), (''refresh_token'', Str (''mcp_rt_'' @ rr')),
                             (''scope'', Str (td_scope ad))], st')
                \<and> tokenStore st' (access_key ra') \<noteq> None
                \<and> tokenStore st' (auth_key code) = None))"
proof (intro conjI impI allI)
  assume "truthy (tq_code_verifier rq) = None"
  then show "oauth_token st rq ra rr t1 t2 =
      (Json 400 (error_json ''invalid_request'' ''code_verifier required for PKCE''), st)"
    using stored rq by (simp add: oauth_token_def template_def)
next
  fix w
  assume "truthy (tq_code_verifier rq) = Some w \<and> \<not> pkce_verify w (td_code_challenge ad)"
  then show "oauth_token st rq ra rr t1 t2 =
      (Json 400 (error_json ''invalid_grant'' ''Invalid code_verifier''), st)"
    using stored rq by (simp add: oauth_token_def template_def)
next
  assume err: "\<forall>body. fst (oauth_token st rq ra rr t1 t2) \<noteq> Json 200 body"
  then show same: "snd (oauth_token st rq ra rr t1 t2) = st"
    by (rule token_error_keeps_store)
  show "tokenStore (snd (oauth_token st rq ra rr t1 t2)) (auth_key code) = Some ad"
    by (simp add: same stored)
  have pk: "pkce_verify v (td_code_challenge ad)"
    by (simp add: pkce_verify_def chal)
  have fe: "oauth_token st (rq\<lparr>tq_code_verifier := Some v\<rparr>) ra' rr' t3 t4 =
      (Json 200 [(''access_token'', Str (access_key ra')), (''token_type'', Str ''Bearer''),
                 (''expires_in'', Num 3600), (''refresh_token'', Str (''mcp_rt_'' @ rr')),
                 (''scope'', Str (td_scope ad))],
       evict (auth_key code)
         (st\<lparr>tokenStore := (tokenStore st)(access_key ra' \<mapsto>
            \<lparr>td_client_id = td_client_id ad, td_scope = td_scope ad,
             td_redirect_uri = None, td_code_challenge = None,
             td_code_challenge_method = None, td_token_type = Some ''Bearer'',
             td_descope_token = None, td_descope_user = None,
             td_expires_at = t3 + token_ttl, td_created_at = t4\<rparr>)\<rparr>))"
    by (rule first_exchange [OF stored pk v]) (simp_all add: rq)
  show "\<exists>st'. oauth_token (snd (oauth_token st rq ra rr t1 t2))
                 (rq\<lparr>tq_code_verifier := Some v\<rparr>) ra' rr' t3 t4 =
            (Json 200 [(''access_token'', Str (access_key ra')), (''token_type'', Str ''Bearer''),
                       (''expires_in'', Num 3600), (''refresh_token'', Str (''mcp_rt_'' @ rr')),
                       (''scope'', Str (td_scope ad))], st')
          \<and> tokenStore st' (access_key ra') \<noteq> None
          \<and> tokenStore st' (auth_key code) = None"
    unfolding same fe
    by (simp add: evict_def access_key_not_auth_key auth_key_not_access_key)
qed

text \<open>On the scenario: the mutated verifier \<^verbatim>\<open>abc124\<close>, no verifier, and then
  \<^verbatim>\<open>abc123\<close>.\<close>

theorem token_errors_leave_store_witness:
  "oauth_token demo_authorized (demo_exchange (Some ''abc124'')) ''r1'' ''r2'' 1000 1000 =
     (Json 400 (error_json ''invalid_grant'' ''Invalid code_verifier''), demo_authorized)
   \<and> oauth_token demo_authorized (demo_exchange None) ''r1'' ''r2'' 1000 1000 =
     (Json 400 (error_json ''invalid_request'' ''code_verifier required for PKCE''), demo_authorized)
   \<and> fst (oauth_token (snd (oauth_token demo_authorized (demo_exchange (Some ''abc124''))
                              ''r1'' ''r2'' 1000 1000))
             (demo_exchange (Some ''abc123'')) ''r3'' ''r4'' 2000 2000) =
     Json 200 [(''access_token'', Str ''mcp_at_r3''), (''token_type'', Str ''Bearer''),
               (''expires_in'', Num 3600), (''refresh_token'', Str ''mcp_rt_r4''),
               (''scope'', Str ''mcp:tools'')]"
proof -
  have chal: "td_code_challenge \<lparr>td_client_id = ''mcp_c1'', td_scope = ''mcp:tools'',
           td_redirect_uri = Some ''http://localhost:4000/cb'',
           td_code_challenge = Some demo_challenge, td_code_challenge_method = Some ''S256'',
           td_token_type = None, td_descope_token = None, td_descope_user = None,
           td_expires_at = 600000, td_created_at = 0\<rparr> = Some (S256 ''abc123'')"
    by (simp add: S256_abc123)
  have t: "truthy (Some ''abc124'') = Some ''abc124''" "truthy None = None"
    by (simp_all add: truthy_def)
  have bad: "\<not> pkce_verify ''abc124'' (Some demo_challenge)"
    by (simp add: pkce_verify_def S256_abc124 demo_challenge_def)
  note th = token_errors_leave_store [OF demo_authorized_code chal, of _ "''r1''" "''r2''" 1000 1000
      "''r3''" "''r4''" 2000 2000]
  have a: "oauth_token demo_authorized (demo_exchange (Some ''abc124'')) ''r1'' ''r2'' 1000 1000 =
     (Json 400 (error_json ''invalid_grant'' ''Invalid code_verifier''), demo_authorized)"
    using th [of "demo_exchange (Some ''abc124'')"] bad t
    by (simp add: demo_exchange_def)
  have b: "oauth_token demo_authorized (demo_exchange None) ''r1'' ''r2'' 1000 1000 =
     (Json 400 (error_json ''invalid_request'' ''code_verifier required for PKCE''), demo_authorized)"
    using th [of "demo_exchange None"] t
    by (simp add: demo_exchange_def)
  have c: "fst (oauth_token (snd (oauth_token demo_authorized (demo_exchange (Some ''abc124''))
                              ''r1'' ''r2'' 1000 1000))
             (demo_exchange (Some ''abc123'')) ''r3'' ''r4'' 2000 2000) =
     Json 200 [(''access_token'', Str ''mcp_at_r3''), (''token_type'', Str ''Bearer''),
               (''expires_in'', Num 3600), (''refresh_token'', Str ''mcp_rt_r4''),
               (''scope'', Str ''mcp:tools'')]"
    using th [of "demo_exchange (Some ''abc124'')"] a
    by (auto simp: demo_exchange_def access_key_def)
  show ?thesis using a b c by simp
qed

section \<open>The callback spends the code it hands out\<close>

lemma map_of_filter_other:
  "k' \<noteq> k \<Longrightarrow> map_of (filter (\<lambda>q. fst q \<noteq> k) ps) k' = map_of ps k'"
  by (induction ps) auto

lemma map_of_searchParams_set:
  "map_of (searchParams_set k v ps) k' = (if k' = k then Some v else map_of ps k')"
  by (induction ps) (auto simp: map_of_filter_other)

text \<open>
  Claim C3. Whenever the callback handler answers with the redirect to the client, the URL
  is the parsed \<^verbatim>\<open>redirect_uri\<close> of a stored authorization code with
  \<^verbatim>\<open>code=<that code>\<close> and \<^verbatim>\<open>state=authorized\<close> set; the returned store holds the MCP
  access token the handler minted (tied to the Descope session) and does not hold the
  code any more. So an \<^verbatim>\<open>authorization_code\<close> exchange of the delivered code is
  answered 400 \<^verbatim>\<open>invalid_grant\<close>, right away and after any sequence of requests in which
  the authorization endpoint does not mint that same code string again.
\<close>

theorem callback_spends_code:
  assumes cb: "oauth_callback env sdk st code rnd t1 t2 = (RedirectURL u, st')"
  shows "\<exists>authCode authData base sessionToken.
           tokenStore st (auth_key authCode) = Some authData
         \<and> new_URL env (template (td_redirect_uri authData)) = Some base
         \<and> u = set_param ''state'' ''authorized'' (set_param ''code'' authCode base)
         \<and> map_of (searchParams u) ''code'' = Some authCode
         \<and> (\<exists>tok. tokenStore st' (access_key rnd) = Some tok
                  \<and> td_descope_token tok = Some sessionToken
                  \<and> td_client_id tok = td_client_id authData)
         \<and> tokenStore st' (auth_key authCode) = None
         \<and> (\<forall>evs rq ra rr t3 t4.
               Some authCode \<notin> minted ` set evs \<and>
               tq_grant_type rq = Some ''authorization_code'' \<and> tq_code rq = Some authCode \<longrightarrow>
               oauth_token (run env evs st') rq ra rr t3 t4 =
                 (Json 400 (error_json ''invalid_grant'' ''Invalid or expired authorization code''),
                  run env evs st'))"
proof -
  from cb obtain authCode authData base sessionToken tok where
    f: "tokenStore st (auth_key authCode) = Some authData"
       "new_URL env (template (td_redirect_uri authData)) = Some base"
       "u = set_param ''state'' ''authorized'' (set_param ''code'' authCode base)"
       "tokenStore st' (auth_key authCode) = None"
    and g: "tokenStore st' (access_key rnd) = Some tok" "td_descope_token tok = Some sessionToken"
       "td_client_id tok = td_client_id authData"
    by (auto simp: oauth_callback_def Let_def evict_def access_key_not_auth_key
             split: option.splits if_splits)
  have code: "map_of (searchParams u) ''code'' = Some authCode"
    by (simp add: f(3) set_param_def map_of_searchParams_set)
  have later: "oauth_token (run env evs st') rq ra rr t3 t4 =
                 (Json 400 (error_json ''invalid_grant'' ''Invalid or expired authorization code''),
                  run env evs st')"
    if "Some authCode \<notin> minted ` set evs" "tq_grant_type rq = Some ''authorization_code''"
       "tq_code rq = Some authCode" for evs rq ra rr t3 t4
  proof -
    have "tokenStore (run env evs st') (auth_key authCode) = None"
      using f(4) that(1) by (rule run_absent_code)
    then show ?thesis
      using that(2,3) by (intro token_absent_code) (simp_all add: template_def)
  qed
  have "tokenStore st (auth_key authCode) = Some authData
         \<and> new_URL env (template (td_redirect_uri authData)) = Some base
         \<and> u = set_param ''state'' ''authorized'' (set_param ''code'' authCode base)
         \<and> map_of (searchParams u) ''code'' = Some authCode
         \<and> (\<exists>tok. tokenStore st' (access_key rnd) = Some tok
                  \<and> td_descope_token tok = Some sessionToken
                  \<and> td_client_id tok = td_client_id authData)
         \<and> tokenStore st' (auth_key authCode) = None
         \<and> (\<forall>evs rq ra rr t3 t4.
               Some authCode \<notin> minted ` set evs \<and>
               tq_grant_type rq = Some ''authorization_code'' \<and> tq_code rq = Some authCode \<longrightarrow>
               oauth_token (run env evs st') rq ra rr t3 t4 =
                 (Json 400 (error_json ''invalid_grant'' ''Invalid or expired authorization code''),
                  run env evs st'))"
    using f g code later by blast
  then show ?thesis by blast
qed

lemma demo_callback:
  "fst (oauth_callback demo_env demo_sdk demo_authorized (Some ''idp-code'') ''r9'' 5000 5000) =
     RedirectURL demo_redirect"
  by (simp add: oauth_callback_def demo_authorized_code demo_sdk_def demo_jwt_def demo_env_def
        demo_URL_def demo_redirect_def truthy_def or_default_def template_def set_param_def Let_def)

theorem callback_spends_code_witness:
  "fst (oauth_callback demo_env demo_sdk demo_authorized (Some ''idp-code'') ''r9'' 5000 5000) =
     RedirectURL demo_redirect
   \<and> map_of (searchParams demo_redirect) ''code'' = Some ''c0de''
   \<and> fst (oauth_token (snd (oauth_callback demo_env demo_sdk demo_authorized (Some ''idp-code'')
                              ''r9'' 5000 5000))
             (demo_exchange (Some ''abc123'')) ''r1'' ''r2'' 6000 6000) =
     Json 400 (error_json ''invalid_grant'' ''Invalid or expired authorization code'')"
proof -
  let ?st' = "snd (oauth_callback demo_env demo_sdk demo_authorized (Some ''idp-code'') ''r9'' 5000 5000)"
  have cb: "oauth_callback demo_env demo_sdk demo_authorized (Some ''idp-code'') ''r9'' 5000 5000 =
              (RedirectURL demo_redirect, ?st')"
    using demo_callback by (simp add: prod_eq_iff)
  from callback_spends_code [OF cb] obtain authCode where
    c: "map_of (searchParams demo_redirect) ''code'' = Some authCode"
    and l: "\<forall>evs rq ra rr t3 t4.
               Some authCode \<notin> minted ` set evs \<and>
               tq_grant_type rq = Some ''authorization_code'' \<and> tq_code rq = Some authCode \<longrightarrow>
               oauth_token (run demo_env evs ?st') rq ra rr t3 t4 =
                 (Json 400 (error_json ''invalid_grant'' ''Invalid or expired authorization code''),
                  run demo_env evs ?st')"
    by blast
  have ac: "authCode = ''c0de''"
    using c by (simp add: demo_redirect_def)
  have "oauth_token (run demo_env [] ?st') (demo_exchange (Some ''abc123'')) ''r1'' ''r2'' 6000 6000 =
          (Json 400 (error_json ''invalid_grant'' ''Invalid or expired authorization code''),
           run demo_env [] ?st')"
    using l unfolding ac by (simp add: demo_exchange_def)
  then show ?thesis
    using demo_callback c ac by (simp add: run_def)
qed

section \<open>Expiry of access tokens at the bearer gate\<close>

text \<open>What the token endpoint stores on a 200: a token without a Descope session, expiring
  one hour after the first clock reading.\<close>

lemma token_mint_shape:
  assumes "oauth_token st0 rq rnd_at rnd_rt t1 t2 = (Json 200 body, st)"
  shows "\<exists>td. tokenStore st (access_key rnd_at) = Some td
            \<and> td_expires_at td = t1 + 3600 * 1000 \<and> td_created_at td = t2
            \<and> td_descope_token td = None"
  using assms
  by (auto simp: oauth_token_def Let_def evict_def token_ttl_def access_key_not_auth_key
           split: option.splits if_splits)

text \<open>
  Claim C5. Let the store hold, under \<open>tok\<close>, a record with
  \<open>expires_at = created_at + 3600 s\<close>, and let a request that the gate does not wave
  through (not \<^verbatim>\<open>OPTIONS\<close>, no public path) carry \<^verbatim>\<open>Bearer tok\<close>. At every lookup time
  up to \<open>expires_at\<close>, so at \<open>created_at + 3599 s\<close>, the gate calls \<^verbatim>\<open>next()\<close> with the
  record attached and leaves the store alone; at every lookup time after \<open>expires_at\<close>,
  so at \<open>created_at + 3601 s\<close>, it answers 401 \<^verbatim>\<open>invalid_token\<close> and deletes the
  token. The tokens of the token endpoint carry no Descope session; for a record that
  carries one (minted by the callback) the gate re-validates the session after the expiry
  check, and the first half is stated for a session that validates.
\<close>

theorem access_token_expiry_boundary:
  assumes stored: "tokenStore st tok = Some td"
      and ttl: "td_expires_at td = td_created_at td + 3600 * 1000"
      and session: "\<forall>d. truthy (td_descope_token td) = Some d \<longrightarrow>
                      (\<exists>vt. validateSession sdk d = Some vt \<and> vt_valid vt)"
      and req: "req_method req \<noteq> ''OPTIONS''"
               "\<not> list_ex (\<lambda>path. prefix path (req_path req)) publicPaths"
               "req_authorization req = Some (''Bearer '' @ tok)"
  shows "(\<forall>now. now \<le> td_expires_at td \<longrightarrow>
            (\<exists>ctx. authenticateBearer env sdk st req now = (Next (Some ctx), st)
                 \<and> ctx_tokenData ctx = td \<and> ctx_clientId ctx = td_client_id td))
       \<and> (\<forall>now. td_expires_at td < now \<longrightarrow>
            authenticateBearer env sdk st req now =
              (Respond (Json 401 (error_json ''invalid_token'' ''Token has expired'')), evict tok st)
          \<and> tokenStore (evict tok st) tok = None)
       \<and> (\<exists>ctx. authenticateBearer env sdk st req (td_created_at td + 3599 * 1000) =
                   (Next (Some ctx), st) \<and> ctx_tokenData ctx = td)
       \<and> authenticateBearer env sdk st req (td_created_at td + 3601 * 1000) =
            (Respond (Json 401 (error_json ''invalid_token'' ''Token has expired'')), evict tok st)"
proof -
  have accept: "\<exists>ctx. authenticateBearer env sdk st req now = (Next (Some ctx), st)
                 \<and> ctx_tokenData ctx = td \<and> ctx_clientId ctx = td_client_id td"
    if "now \<le> td_expires_at td" for now
  proof (cases "truthy (td_descope_token td)")
    case None
    then show ?thesis
      using stored req that by (simp add: authenticateBearer_def truthy_def Let_def)
  next
    case (Some d)
    then obtain vt where "validateSession sdk d = Some vt" "vt_valid vt"
      using session by blast
    then show ?thesis
      using Some stored req that by (simp add: authenticateBearer_def truthy_def Let_def)
  qed
  have reject: "authenticateBearer env sdk st req now =
              (Respond (Json 401 (error_json ''invalid_token'' ''Token has expired'')), evict tok st)"
    if "td_expires_at td < now" for now
    using stored req that by (simp add: authenticateBearer_def truthy_def Let_def)
  have gone: "tokenStore (evict tok st) tok = None"
    by (simp add: evict_def)
  have "\<exists>ctx. authenticateBearer env sdk st req (td_created_at td + 3599 * 1000) =
                   (Next (Some ctx), st) \<and> ctx_tokenData ctx = td"
    using accept [of "td_created_at td + 3599 * 1000"] ttl by auto
  moreover have "authenticateBearer env sdk st req (td_created_at td + 3601 * 1000) =
            (Respond (Json 401 (error_json ''invalid_token'' ''Token has expired'')), evict tok st)"
    using reject [of "td_created_at td + 3601 * 1000"] ttl by simp
  ultimately show ?thesis
    using accept reject gone by blast
qed

lemma demo_exchanged_token: "tokenStore demo_exchanged ''mcp_at_r1'' = Some demo_token"
proof -
  have "pkce_verify ''abc123'' (Some demo_challenge)"
    by (simp add: pkce_verify_def S256_abc123)
  then show ?thesis
    using first_exchange [OF demo_authorized_code, of "''abc123''" "demo_exchange (Some ''abc123'')"
        "''r1''" "''r2''" 1000 1000]
    by (simp add: demo_exchanged_def demo_exchange_def demo_token_def evict_def access_key_def
          auth_key_def token_ttl_def)
qed

theorem access_token_expiry_boundary_witness:
  "fst (authenticateBearer demo_env demo_sdk demo_exchanged (demo_request ''mcp_at_r1'') 3600000) =
     Next (Some \<lparr>ctx_user = None, ctx_tokenData = demo_token, ctx_clientId = ''mcp_c1''\<rparr>)
   \<and> fst (authenticateBearer demo_env demo_sdk demo_exchanged (demo_request ''mcp_at_r1'') 3602000) =
     Respond (Json 401 (error_json ''invalid_token'' ''Token has expired''))
   \<and> tokenStore (snd (authenticateBearer demo_env demo_sdk demo_exchanged
                        (demo_request ''mcp_at_r1'') 3602000)) ''mcp_at_r1'' = None"
proof -
  have ttl: "td_expires_at demo_token = td_created_at demo_token + 3600 * 1000"
    by (simp add: demo_token_def)
  have session: "\<forall>d. truthy (td_descope_token demo_token) = Some d \<longrightarrow>
                      (\<exists>vt. validateSession demo_sdk d = Some vt \<and> vt_valid vt)"
    by (simp add: demo_token_def truthy_def)
  have req: "req_method (demo_request ''mcp_at_r1'') \<noteq> ''OPTIONS''"
    "\<not> list_ex (\<lambda>path. prefix path (req_path (demo_request ''mcp_at_r1''))) publicPaths"
    "req_authorization (demo_request ''mcp_at_r1'') = Some (''Bearer '' @ ''mcp_at_r1'')"
    by (simp_all add: demo_request_def publicPaths_def)
  note th = access_token_expiry_boundary [OF demo_exchanged_token ttl session req, of demo_env]
  have a: "\<exists>ctx. authenticateBearer demo_env demo_sdk demo_exchanged (demo_request ''mcp_at_r1'')
                    3600000 = (Next (Some ctx), demo_exchanged) \<and> ctx_tokenData ctx = demo_token"
    using th by (simp add: demo_token_def)
  have a': "fst (authenticateBearer demo_env demo_sdk demo_exchanged (demo_request ''mcp_at_r1'') 3600000) =
     Next (Some \<lparr>ctx_user = None, ctx_tokenData = demo_token, ctx_clientId = ''mcp_c1''\<rparr>)"
    using a
    by (auto simp: authenticateBearer_def demo_request_def publicPaths_def truthy_def
          demo_exchanged_token demo_token_def Let_def)
  have b: "authenticateBearer demo_env demo_sdk demo_exchanged (demo_request ''mcp_at_r1'') 3602000 =
      (Respond (Json 401 (error_json ''invalid_token'' ''Token has expired'')),
       evict ''mcp_at_r1'' demo_exchanged)"
    using th by (simp add: demo_token_def)
  show ?thesis
    using a' b by (simp add: evict_def)
qed

section \<open>The client-credentials grant\<close>

text \<open>
  Claim C6. For \<^verbatim>\<open>grant_type=client_credentials\<close>: with the id of a registered client
  and exactly its stored secret the token endpoint answers 200 with a non-empty
  \<^verbatim>\<open>access_token\<close>, \<^verbatim>\<open>token_type\<close> \<^verbatim>\<open>Bearer\<close>, \<^verbatim>\<open>expires_in\<close> 3600, the server's
  scope and no \<^verbatim>\<open>refresh_token\<close>, and stores the token; with no or an unknown
  \<^verbatim>\<open>client_id\<close>, or with any other (or no) secret, it answers 401 \<^verbatim>\<open>invalid_client\<close>
  and leaves the state unchanged.
\<close>

theorem client_credentials_grant:
  assumes grant: "tq_grant_type rq = Some ''client_credentials''"
  shows "(\<forall>cid client.
            tq_client_id rq = Some cid \<and> clientStore st cid = Some client \<and>
            tq_client_secret rq = Some (cl_client_secret client) \<longrightarrow>
            (\<exists>body st'. oauth_token st rq ra rr t1 t2 = (Json 200 body, st')
               \<and> body = [(''access_token'', Str (access_key ra)), (''token_type'', Str ''Bearer''),
                          (''expires_in'', Num 3600), (''scope'', Str server_scope)]
               \<and> access_key ra \<noteq> []
               \<and> map_of body ''refresh_token'' = None
               \<and> (\<exists>td. tokenStore st' (access_key ra) = Some td \<and> td_client_id td = cid
                        \<and> td_expires_at td = t1 + token_ttl)))
       \<and> ((tq_client_id rq = None \<or> (\<exists>cid. tq_client_id rq = Some cid \<and> clientStore st cid = None)) \<longrightarrow>
            oauth_token st rq ra rr t1 t2 =
              (Json 401 (error_json ''invalid_client'' ''Invalid client credentials''), st))
       \<and> (\<forall>cid client.
            tq_client_id rq = Some cid \<and> clientStore st cid = Some client \<and>
            tq_client_secret rq \<noteq> Some (cl_client_secret client) \<longrightarrow>
            oauth_token st rq ra rr t1 t2 =
              (Json 401 (error_json ''invalid_client'' ''Invalid client credentials''), st))"
  using grant
  by (auto simp: oauth_token_def Let_def template_def access_key_def)

theorem client_credentials_grant_witness:
  "fst (oauth_token demo_server (demo_credentials ''mcp_c1'' ''mcp_sk_s1'') ''r1'' ''r2'' 1000 1000) =
     Json 200 [(''access_token'', Str ''mcp_at_r1''), (''token_type'', Str ''Bearer''),
               (''expires_in'', Num 3600), (''scope'', Str ''mcp:tools mcp:resources store:read'')]
   \<and> oauth_token demo_server (demo_credentials ''mcp_c1'' ''mcp_sk_s2'') ''r1'' ''r2'' 1000 1000 =
     (Json 401 (error_json ''invalid_client'' ''Invalid client credentials''), demo_server)
   \<and> oauth_token demo_server (demo_credentials ''mcp_c2'' ''mcp_sk_s1'') ''r1'' ''r2'' 1000 1000 =
     (Json 401 (error_json ''invalid_client'' ''Invalid client credentials''), demo_server)"
  using client_credentials_grant [of "demo_credentials ''mcp_c1'' ''mcp_sk_s1''" demo_server
          "''r1''" "''r2''" 1000 1000]
        client_credentials_grant [of "demo_credentials ''mcp_c1'' ''mcp_sk_s2''" demo_server
          "''r1''" "''r2''" 1000 1000]
        client_credentials_grant [of "demo_credentials ''mcp_c2'' ''mcp_sk_s1''" demo_server
          "''r1''" "''r2''" 1000 1000]
  by (auto simp: demo_credentials_def demo_server_def demo_client_def server_scope_def access_key_def)

section \<open>Dynamic client registration filters the redirect URIs\<close>

text \<open>
  Claim C7. Of the redirect URIs a registration runs on (the submitted list, or the
  server's own callback when the field is absent), exactly those are kept, in order, that
  parse with protocol \<^verbatim>\<open>https:\<close>, or with protocol \<^verbatim>\<open>http:\<close> and hostname
  \<^verbatim>\<open>localhost\<close>. When none is kept the answer is 400 \<^verbatim>\<open>invalid_redirect_uri\<close> and the
  state is unchanged; otherwise the answer is 200, the client stored under the new id has
  exactly the kept URIs as \<^verbatim>\<open>redirect_uris\<close>, the response lists the same, and nothing
  else in the stores changes.
\<close>

theorem register_keeps_valid_redirect_uris:
  "let uris = or_default (rr_redirect_uris rq) [MCP_SERVER_URL env @ ''/oauth/callback''];
       kept = filter (\<lambda>uri. \<exists>u. new_URL env uri = Some u \<and>
                 (protocol u = ''https:'' \<or> protocol u = ''http:'' \<and> hostname u = ''localhost'')) uris
   in (kept = [] \<longrightarrow>
         oauth_register env st rq rnd_id rnd_secret now =
           (Json 400 (error_json ''invalid_redirect_uri''
                        ''Redirect URIs must be HTTPS or localhost HTTP''), st))
    \<and> (kept \<noteq> [] \<longrightarrow>
         (\<exists>body st'.
            oauth_register env st rq rnd_id rnd_secret now = (Json 200 body, st')
          \<and> map_of body ''client_id'' = Some (Str (''mcp_'' @ rnd_id))
          \<and> map_of body ''redirect_uris'' = Some (Arr (map Str kept))
          \<and> map_option cl_redirect_uris (clientStore st' (''mcp_'' @ rnd_id)) = Some kept
          \<and> (\<forall>k. k \<noteq> ''mcp_'' @ rnd_id \<longrightarrow> clientStore st' k = clientStore st k)
          \<and> tokenStore st' = tokenStore st))"
proof -
  have eq: "valid_redirect_uri env = (\<lambda>uri. \<exists>u. new_URL env uri = Some u \<and>
                 (protocol u = ''https:'' \<or> protocol u = ''http:'' \<and> hostname u = ''localhost''))"
    by (auto simp: valid_redirect_uri_def fun_eq_iff split: option.splits)
  show ?thesis
    unfolding eq [symmetric]
    by (simp add: oauth_register_def Let_def)
qed

theorem register_keeps_valid_redirect_uris_witness:
  "oauth_register demo_env demo_server (demo_register [''http://app.example/cb'', ''not a url''])
       ''c2'' ''s2'' 7 =
     (Json 400 (error_json ''invalid_redirect_uri'' ''Redirect URIs must be HTTPS or localhost HTTP''),
      demo_server)
   \<and> map_option cl_redirect_uris
        (clientStore (snd (oauth_register demo_env demo_server
            (demo_register [''http://app.example/cb'', ''https://app.example/cb'', ''not a url'',
                            ''http://localhost:4000/cb'']) ''c2'' ''s2'' 7)) ''mcp_c2'') =
     Some [''https://app.example/cb'', ''http://localhost:4000/cb'']"
  using register_keeps_valid_redirect_uris [of "demo_register [''http://app.example/cb'', ''not a url'']"
          demo_env demo_server "''c2''" "''s2''" 7]
        register_keeps_valid_redirect_uris [of "demo_register [''http://app.example/cb'',
            ''https://app.example/cb'', ''not a url'', ''http://localhost:4000/cb'']"
          demo_env demo_server "''c2''" "''s2''" 7]
  by (auto simp: demo_register_def demo_env_def demo_URL_def or_default_def Let_def)

section \<open>compare\_products\<close>

lemma same_value_zero_iff: "same_value_zero x v \<longleftrightarrow> x = v \<and> (\<forall>ys. v \<noteq> Arr ys)"
  by (cases x) (auto simp: same_value_zero_def)

lemma array_includes_iff: "array_includes xs v \<longleftrightarrow> v \<in> set xs \<and> (\<forall>ys. v \<noteq> Arr ys)"
  by (auto simp: array_includes_def list_ex_iff same_value_zero_iff)

lemma map_entries_wellformed:
  assumes "\<forall>p \<in> set ps. p_variants p \<noteq> None \<and> p_description p \<noteq> None"
  shows "\<exists>es. map_entries ps = Inr es \<and> map ce_id es = map p_id ps \<and> map ce_title es = map p_title ps"
  using assms
proof (induction ps)
  case Nil
  then show ?case by simp
next
  case (Cons p ps)
  then obtain vs d where "p_variants p = Some vs" "p_description p = Some d"
    by auto
  moreover obtain es where "map_entries ps = Inr es" "map ce_id es = map p_id ps"
      "map ce_title es = map p_title ps"
    using Cons by auto
  ultimately show ?case
    by (simp add: compare_entry_def)
qed

lemma map_entries_throws:
  assumes "\<exists>p \<in> set ps. p_variants p = None \<or> p_description p = None"
  shows "map_entries ps = Inl TypeError"
  using assms
proof (induction ps)
  case Nil
  then show ?case by simp
next
  case (Cons p ps)
  show ?case
  proof (cases "p_variants p = None \<or> p_description p = None")
    case True
    then show ?thesis
      by (auto simp: compare_entry_def split: option.splits)
  next
    case False
    then have "map_entries ps = Inl TypeError"
      using Cons by auto
    with False show ?thesis
      by (auto simp: compare_entry_def split: option.splits)
  qed
qed

lemma count_list_distinct:
  "distinct xs \<Longrightarrow> count_list xs x = (if x \<in> set xs then 1 else 0)"
  by (induction xs) auto

text \<open>
  Claim C10, amended. A requested id matches a product when \<^verbatim>\<open>includes\<close> finds the
  product's id among the requested ones: a string, a number or \<^verbatim>\<open>null\<close> by value, an
  array never. When the catalog request succeeds and every matching product has a
  \<^verbatim>\<open>variants\<close> array and a string \<^verbatim>\<open>description\<close>, \<^verbatim>\<open>compareProducts\<close> returns;
  its comparison entries are those of the matching products, in the catalog's order
  (requested ids that match no product leave no trace), and \<^verbatim>\<open>recommendation\<close> is the
  title of the first matching product, or \<^verbatim>\<open>null\<close> when nothing matches. With distinct
  ids in the catalog, each requested id has exactly one entry when it is a non-array id of
  the catalog and none otherwise. When some matching product has no \<^verbatim>\<open>variants\<close> or
  no string \<^verbatim>\<open>description\<close>, the call throws a \<^verbatim>\<open>TypeError\<close> and returns nothing.
\<close>

theorem compare_products_entries:
  "if \<forall>p \<in> set catalog. array_includes productIds (p_id p) \<longrightarrow>
         p_variants p \<noteq> None \<and> p_description p \<noteq> None
   then \<exists>r. compareProducts (Some catalog) productIds = Inr r
           \<and> map ce_id (comparison r) =
               filter (\<lambda>i. i \<in> set productIds \<and> (\<forall>ys. i \<noteq> Arr ys)) (map p_id catalog)
           \<and> map ce_title (comparison r) =
               map p_title (filter (\<lambda>p. array_includes productIds (p_id p)) catalog)
           \<and> recommendation r =
               (case filter (\<lambda>p. array_includes productIds (p_id p)) catalog of
                  [] \<Rightarrow> Null | p # _ \<Rightarrow> p_title p)
           \<and> (distinct (map p_id catalog) \<longrightarrow>
                (\<forall>i \<in> set productIds.
                   count_list (map ce_id (comparison r)) i =
                     (if i \<in> p_id ` set catalog \<and> (\<forall>ys. i \<noteq> Arr ys) then 1 else 0)))
   else compareProducts (Some catalog) productIds = Inl TypeError"
proof (cases "\<forall>p \<in> set catalog. array_includes productIds (p_id p) \<longrightarrow>
                 p_variants p \<noteq> None \<and> p_description p \<noteq> None")
  case wf: True
  let ?ps = "filter (\<lambda>p. array_includes productIds (p_id p)) catalog"
  have "\<forall>p \<in> set ?ps. p_variants p \<noteq> None \<and> p_description p \<noteq> None"
    using wf by simp
  then obtain es where es: "map_entries ?ps = Inr es" "map ce_id es = map p_id ?ps"
      "map ce_title es = map p_title ?ps"
    using map_entries_wellformed by blast
  let ?r = "\<lparr>comparison = es,
             recommendation = (if length ?ps > 0 then p_title (hd ?ps) else Null)\<rparr>"
  have r: "compareProducts (Some catalog) productIds = Inr ?r"
    by (simp add: compareProducts_def es Let_def)
  have ids: "map ce_id es =
      filter (\<lambda>i. i \<in> set productIds \<and> (\<forall>ys. i \<noteq> Arr ys)) (map p_id catalog)"
    by (simp add: es filter_map comp_def array_includes_iff)
  have reco: "recommendation ?r = (case ?ps of [] \<Rightarrow> Null | p # _ \<Rightarrow> p_title p)"
    by (cases ?ps) simp_all
  have cnt: "count_list (map ce_id es) i =
       (if i \<in> p_id ` set catalog \<and> (\<forall>ys. i \<noteq> Arr ys) then 1 else 0)"
    if "distinct (map p_id catalog)" "i \<in> set productIds" for i
  proof -
    have "distinct (map ce_id es)"
      unfolding ids using that(1) by (rule distinct_filter)
    moreover have "i \<in> set (map ce_id es) \<longleftrightarrow> i \<in> p_id ` set catalog \<and> (\<forall>ys. i \<noteq> Arr ys)"
      unfolding ids using that(2) by auto
    ultimately show ?thesis
      by (simp only: count_list_distinct)
  qed
  have ex: "\<exists>r. compareProducts (Some catalog) productIds = Inr r
           \<and> map ce_id (comparison r) =
               filter (\<lambda>i. i \<in> set productIds \<and> (\<forall>ys. i \<noteq> Arr ys)) (map p_id catalog)
           \<and> map ce_title (comparison r) = map p_title ?ps
           \<and> recommendation r = (case ?ps of [] \<Rightarrow> Null | p # _ \<Rightarrow> p_title p)
           \<and> (distinct (map p_id catalog) \<longrightarrow>
                (\<forall>i \<in> set productIds.
                   count_list (map ce_id (comparison r)) i =
                     (if i \<in> p_id ` set catalog \<and> (\<forall>ys. i \<noteq> Arr ys) then 1 else 0)))"
    by (rule exI [of _ ?r]) (use r ids es(3) reco cnt in simp)
  show ?thesis
    by (subst if_P [OF wf]) (rule ex)
next
  case False
  then have "\<exists>p \<in> set (filter (\<lambda>p. array_includes productIds (p_id p)) catalog).
               p_variants p = None \<or> p_description p = None"
    by auto
  then have "map_entries (filter (\<lambda>p. array_includes productIds (p_id p)) catalog) = Inl TypeError"
    by (rule map_entries_throws)
  then have throws: "compareProducts (Some catalog) productIds = Inl TypeError"
    by (simp add: compareProducts_def Let_def)
  show ?thesis
    by (subst if_not_P [OF False]) (rule throws)
qed

text \<open>On the catalog of the scenario: ids 2, 9 and 1 requested; id 9 alone; the array id
  of the fourth product requested by an equal array; and ids 1 and 3, the third product
  having no \<^verbatim>\<open>variants\<close>.\<close>

theorem compare_products_entries_witness:
  "map_sum id (\<lambda>r. (map ce_id (comparison r), recommendation r))
     (compareProducts (Some demo_catalog) [Str ''2'', Str ''9'', Str ''1'']) =
     Inr ([Str ''1'', Str ''2''], Str ''Descope Tee'')
   \<and> map_sum id (\<lambda>r. (map ce_id (comparison r), recommendation r))
     (compareProducts (Some demo_catalog) [Str ''9'']) = Inr ([], Null)
   \<and> map_sum id (\<lambda>r. (map ce_id (comparison r), recommendation r))
     (compareProducts (Some demo_catalog) [Arr [Num 4]]) = Inr ([], Null)
   \<and> compareProducts (Some demo_catalog) [Str ''3'', Str ''2''] = Inl TypeError"
  using compare_products_entries [of demo_catalog "[Str ''2'', Str ''9'', Str ''1'']"]
        compare_products_entries [of demo_catalog "[Str ''9'']"]
        compare_products_entries [of demo_catalog "[Arr [Num 4]]"]
        compare_products_entries [of demo_catalog "[Str ''3'', Str ''2'']"]
  by (auto simp: demo_catalog_def array_includes_def same_value_zero_def)

text \<open>
  Claim C10 as it was stated, without the condition on the matching products: ids 1 and 3
  are requested, product 1 is in the catalog with all its fields, and no comparison entry
  is returned for it, since product 3 has no \<^verbatim>\<open>variants\<close> and the call throws.
\<close>

theorem compare_products_throws:
  "list_ex (\<lambda>p. p_id p = Str ''1'' \<and> p_variants p \<noteq> None \<and> p_description p \<noteq> None) demo_catalog
   \<and> compareProducts (Some demo_catalog) [Str ''1'', Str ''3''] = Inl TypeError"
  by (simp add: compareProducts_def demo_catalog_def compare_entry_def array_includes_def
        same_value_zero_def)

section \<open>PKCE round trip and mutated verifiers\<close>

subsection \<open>One byte replaced\<close>
































subsection \<open>One byte removed\<close>








subsection \<open>One byte inserted\<close>





































subsection \<open>The comparison and the token endpoint\<close>





section \<open>Expired authorization codes\<close>

text \<open>The token endpoint never reads \<open>expires_at\<close> of the code it redeems.\<close>

lemma expiry_is_not_read:
  assumes "tokenStore st (auth_key code) = Some ad"
      and "tq_grant_type rq = Some ''authorization_code''" and "tq_code rq = Some code"
  shows "fst (oauth_token (st\<lparr>tokenStore := (tokenStore st)(auth_key code \<mapsto> ad\<lparr>td_expires_at := e\<rparr>)\<rparr>)
               rq rnd_at rnd_rt t1 t2) =
         fst (oauth_token st rq rnd_at rnd_rt t1 t2)"
  using assms
  by (simp add: oauth_token_def template_def Let_def split: option.splits)

text \<open>
  Claim C2 says that a code whose \<open>expires_at\<close> is in the past is answered 400
  \<^verbatim>\<open>invalid_grant\<close>. On the scenario the code \<^verbatim>\<open>c0de\<close> expires at 600000 ms; exchanged
  at 999999999 ms with the matching verifier it is answered 200 with an access token.
\<close>

theorem expired_code_is_redeemed:
  "map_option td_expires_at (tokenStore demo_authorized (auth_key ''c0de'')) = Some 600000
   \<and> fst (oauth_token demo_authorized (demo_exchange (Some ''abc123'')) ''r1'' ''r2''
            999999999 999999999) =
     Json 200 [(''access_token'', Str ''mcp_at_r1''), (''token_type'', Str ''Bearer''),
               (''expires_in'', Num 3600), (''refresh_token'', Str ''mcp_rt_r2''),
               (''scope'', Str ''mcp:tools'')]"
proof -
  have "pkce_verify ''abc123'' (Some demo_challenge)"
    by (simp add: pkce_verify_def S256_abc123)
  then show ?thesis
    using first_exchange [OF demo_authorized_code, of "''abc123''" "demo_exchange (Some ''abc123'')"
        "''r1''" "''r2''" 999999999 999999999]
    by (simp add: demo_authorized_code demo_exchange_def access_key_def)
qed

end
